theory Spec2Isabelle
  imports Complex_Main "HOL-Library.Sublist"
begin

section \<open>Attendance views of buzzhire\_backend/buzz/views.py\<close>

text \<open>
  The module holds three attendance views (punch in, punch out, today's status) and the
  helper \<open>detect_branch\<close>. The views read the request, query and update the table of
  \<open>Attendance\<close> rows, and look for the nearest configured branch. The model passes the
  table explicitly: a view takes the table and returns the table it leaves behind together
  with what the caller gets, a response or the exception that escaped the view.
\<close>

subsection \<open>Python values\<close>

text \<open>
  A Python float is a number, one of the two infinities, or NaN. The finite values are
  idealised as reals: the views only compare floats and hand them on, and the arithmetic
  on them sits in \<open>calculate_distance\<close>, which is a parameter below. Every comparison
  with NaN is false, as in Python.
\<close>

datatype pyfloat = Finite real | PInf | NInf | NaN

fun fl_lt :: "pyfloat \<Rightarrow> pyfloat \<Rightarrow> bool" where
  "fl_lt NaN _ = False"
| "fl_lt _ NaN = False"
| "fl_lt (Finite a) (Finite b) = (a < b)"
| "fl_lt (Finite a) PInf = True"
| "fl_lt (Finite a) NInf = False"
| "fl_lt PInf _ = False"
| "fl_lt NInf NInf = False"
| "fl_lt NInf _ = True"

definition fl_gt :: "pyfloat \<Rightarrow> pyfloat \<Rightarrow> bool" where
  "fl_gt a b = fl_lt b a"

definition fl_le :: "pyfloat \<Rightarrow> pyfloat \<Rightarrow> bool" where
  "fl_le a b = (a \<noteq> NaN \<and> b \<noteq> NaN \<and> (fl_lt a b \<or> a = b))"

text \<open>\<open>round(x, 2)\<close> on the idealised floats: to the nearest hundredth, a tie to the even one.\<close>

definition round_half_even :: "real \<Rightarrow> int" where
  "round_half_even x =
     (let f = \<lfloor>x\<rfloor>; r = x - of_int f
      in if r < 1 / 2 then f else if 1 / 2 < r then f + 1 else if even f then f else f + 1)"

fun round2 :: "pyfloat \<Rightarrow> pyfloat" where
  "round2 (Finite x) = Finite (of_int (round_half_even (x * 100)) / 100)"
| "round2 PInf = PInf"
| "round2 NInf = NInf"
| "round2 NaN = NaN"

text \<open>
  What \<open>request.data\<close> can hold under a key: a number, a string (all a form post
  carries), JSON null, or a list or object.
\<close>

datatype pyval = Num pyfloat | Str string | Null | Other

datatype exn = TypeError | ValueError

text \<open>
  The builtin \<open>float\<close>: a number converts to itself, \<open>None\<close>, a list and a dict raise
  TypeError, a string is parsed and raises ValueError when it is no float literal. The
  parser of strings is the parameter \<open>float_of_str\<close>.
\<close>

fun py_float :: "(string \<Rightarrow> pyfloat option) \<Rightarrow> pyval \<Rightarrow> exn + pyfloat" where
  "py_float float_of_str (Num x) = Inr x"
| "py_float float_of_str (Str s) =
     (case float_of_str s of None \<Rightarrow> Inl ValueError | Some x \<Rightarrow> Inr x)"
| "py_float float_of_str Null = Inl TypeError"
| "py_float float_of_str Other = Inl TypeError"

text \<open>\<open>d.get(k)\<close>: the value under the key, \<open>None\<close> when the key is absent.\<close>

definition dict_get :: "(string \<rightharpoonup> pyval) \<Rightarrow> string \<Rightarrow> pyval" where
  "dict_get d k = (case d k of None \<Rightarrow> Null | Some v \<Rightarrow> v)"

subsection \<open>Configuration, clock, request\<close>

text \<open>An entry of \<open>BRANCHES\<close>: a dict with the keys name, lat and lon.\<close>

record branch =
  name :: string
  lat :: pyfloat
  lon :: pyfloat

text \<open>
  The module imports \<open>BRANCHES\<close> and \<open>PUNCH_RADIUS\<close> from the constants module and
  \<open>calculate_distance\<close> from the distance utilities; none of the three is defined in
  views.py, so they are parameters here, with the string parser of \<open>float\<close>.
\<close>

record env =
  BRANCHES :: "branch list"
  PUNCH_RADIUS :: pyfloat
  calculate_distance :: "pyfloat \<Rightarrow> pyfloat \<Rightarrow> pyfloat \<Rightarrow> pyfloat \<Rightarrow> pyfloat"
  float_of_str :: "string \<Rightarrow> pyfloat option"

text \<open>
  A datetime is its calendar day and the time within the day; the lookup
  \<open>punch_in_time__date\<close> reads the day. A view reads the clock twice, through
  \<open>date.today()\<close> and through \<open>datetime.now()\<close>.
\<close>

type_synonym datetime = "nat \<times> nat"

definition date_of :: "datetime \<Rightarrow> nat" where
  "date_of t = fst t"

record clock =
  today :: nat
  now :: datetime

text \<open>The request: the authenticated user (\<open>request.user\<close>) and \<open>request.data\<close>.\<close>

record request =
  req_user :: nat
  req_data :: "string \<rightharpoonup> pyval"

subsection \<open>The table of attendance rows\<close>

text \<open>
  A row of the \<open>Attendance\<close> model, with the fields the views read and write; the
  primary key \<open>id\<close> is \<open>att_id\<close> here.
\<close>

record attendance =
  att_id :: nat
  user :: nat
  punch_in_time :: "datetime option"
  punch_in_lat :: "pyfloat option"
  punch_in_lon :: "pyfloat option"
  punch_out_time :: "datetime option"
  punch_out_lat :: "pyfloat option"
  punch_out_lon :: "pyfloat option"

type_synonym table = "attendance list"

text \<open>\<open>filter(user=user, punch_in_time__date=today)\<close>; a null time matches no day.\<close>

definition on_day :: "nat \<Rightarrow> attendance \<Rightarrow> bool" where
  "on_day d r = (case punch_in_time r of None \<Rightarrow> False | Some t \<Rightarrow> date_of t = d)"

definition filter_today :: "table \<Rightarrow> nat \<Rightarrow> nat \<Rightarrow> attendance list" where
  "filter_today tbl u d = filter (\<lambda>r. user r = u \<and> on_day d r) tbl"

text \<open>The same with \<open>punch_out_time__isnull=True\<close> added, as the punch-out view filters.\<close>

definition filter_active :: "table \<Rightarrow> nat \<Rightarrow> nat \<Rightarrow> attendance list" where
  "filter_active tbl u d =
     filter (\<lambda>r. user r = u \<and> on_day d r \<and> punch_out_time r = None) tbl"

text \<open>
  \<open>order_by('-id')\<close> sorts by falling primary key. \<open>first()\<close> returns the first row or
  \<open>None\<close>; on a query that has no ordering Django's \<open>first()\<close> orders by the primary key,
  rising, before it takes the first row. The model class is not part of views.py; it is
  taken to declare no default ordering, so that the bare \<open>first()\<close> of the punch-out view
  is of that kind.
\<close>

definition order_by_id_desc :: "attendance list \<Rightarrow> attendance list" where
  "order_by_id_desc rows = rev (sort_key att_id rows)"

definition order_by_pk :: "attendance list \<Rightarrow> attendance list" where
  "order_by_pk rows = sort_key att_id rows"

definition first :: "attendance list \<Rightarrow> attendance option" where
  "first rows = (case rows of [] \<Rightarrow> None | r # _ \<Rightarrow> Some r)"

text \<open>\<open>save()\<close> of a row that was read from the table: an UPDATE of the row with its key.\<close>

definition save :: "table \<Rightarrow> attendance \<Rightarrow> table" where
  "save tbl a = map (\<lambda>r. if att_id r = att_id a then a else r) tbl"

text \<open>
  \<open>objects.create(user, punch_in_time, punch_in_lat, punch_in_lon)\<close>: a new row under a
  key above every key of the table (the key is auto-incremented), the fields that are not
  given left null. Returns the new table and the row.
\<close>

definition next_id :: "table \<Rightarrow> nat" where
  "next_id tbl = Suc (foldr max (map att_id tbl) 0)"

definition create :: "table \<Rightarrow> nat \<Rightarrow> datetime \<Rightarrow> pyfloat \<Rightarrow> pyfloat \<Rightarrow> table \<times> attendance" where
  "create tbl u t user_lat user_lon =
     (let a = \<lparr>att_id = next_id tbl, user = u, punch_in_time = Some t,
                punch_in_lat = Some user_lat, punch_in_lon = Some user_lon,
                punch_out_time = None, punch_out_lat = None, punch_out_lon = None\<rparr>
      in (tbl @ [a], a))"

subsection \<open>Branch resolution\<close>

text \<open>
  The loop that both punch views run over \<open>BRANCHES\<close>, from \<open>(None, float("inf"))\<close>:
  a branch replaces the nearest one so far only when its distance is strictly smaller.
\<close>

fun nearest_loop ::
  "env \<Rightarrow> pyfloat \<Rightarrow> pyfloat \<Rightarrow> branch list \<Rightarrow> branch option \<times> pyfloat \<Rightarrow> branch option \<times> pyfloat"
where
  "nearest_loop e user_lat user_lon [] acc = acc"
| "nearest_loop e user_lat user_lon (b # bs) (nearest_branch, nearest_distance) =
     (let dist = calculate_distance e user_lat user_lon (lat b) (lon b)
      in if fl_lt dist nearest_distance
         then nearest_loop e user_lat user_lon bs (Some b, dist)
         else nearest_loop e user_lat user_lon bs (nearest_branch, nearest_distance))"

definition find_nearest :: "env \<Rightarrow> pyfloat \<Rightarrow> pyfloat \<Rightarrow> branch option \<times> pyfloat" where
  "find_nearest e user_lat user_lon = nearest_loop e user_lat user_lon (BRANCHES e) (None, PInf)"

text \<open>\<open>detect_branch\<close>: the first branch within the radius, in the order of \<open>BRANCHES\<close>.\<close>

fun detect_branch_loop ::
  "env \<Rightarrow> pyfloat \<Rightarrow> pyfloat \<Rightarrow> branch list \<Rightarrow> bool \<times> string option \<times> pyfloat option"
where
  "detect_branch_loop e user_lat user_lon [] = (False, None, None)"
| "detect_branch_loop e user_lat user_lon (b # bs) =
     (let dist = calculate_distance e user_lat user_lon (lat b) (lon b)
      in if fl_le dist (PUNCH_RADIUS e) then (True, Some (name b), Some dist)
         else detect_branch_loop e user_lat user_lon bs)"

definition detect_branch :: "env \<Rightarrow> pyfloat \<Rightarrow> pyfloat \<Rightarrow> bool \<times> string option \<times> pyfloat option" where
  "detect_branch e user_lat user_lon = detect_branch_loop e user_lat user_lon (BRANCHES e)"

subsection \<open>Responses\<close>

text \<open>
  The JSON body of a punch response with its HTTP status; a key that the body does not
  have is \<open>None\<close>. \<open>data\<close> is the serialised row: the serialiser is not part of
  views.py, so the body carries the row as it is.
\<close>

record response =
  status_code :: nat
  status :: string
  message :: string
  branch :: "string option"
  nearest_branch :: "string option"
  distance :: "pyfloat option"
  data :: "attendance option"

text \<open>
  The body of the status view, under its key \<open>data\<close>. The views never store a branch
  with a row, so \<open>getattr(attendance, "branch_name", None)\<close> is \<open>None\<close>; \<open>raw\<close> is
  absent from the body when there is no row.
\<close>

record today_data =
  is_punched_in :: bool
  has_punched_out :: bool
  view_punch_in_time :: "datetime option"
  view_punch_out_time :: "datetime option"
  view_branch :: "string option"
  view_distance :: "pyfloat option"
  raw :: "attendance option"

record today_response =
  today_status_code :: nat
  today_status :: string
  today_data :: today_data

text \<open>What a view hands back: the exception that escaped it, or its response.\<close>

type_synonym outcome = "exn + response"

subsection \<open>PunchInView.post\<close>

text \<open>
  The steps of the view, in its order: the two keys must be present, both values go
  through \<open>float\<close>, today's latest row is read, the nearest branch is looked for, the
  range is checked, and only then the row decides. \<open>nearest_branch["name"]\<close> raises
  TypeError when the loop found no branch.
\<close>

definition PunchInView_post :: "env \<Rightarrow> clock \<Rightarrow> table \<Rightarrow> request \<Rightarrow> table \<times> outcome" where
  "PunchInView_post e ck tbl req =
     (if req_data req ''latitude'' = None \<or> req_data req ''longitude'' = None then
        (tbl, Inr \<lparr>status_code = 400, status = ''failed'',
                   message = ''latitude & longitude are required'',
                   branch = None, nearest_branch = None, distance = None, data = None\<rparr>)
      else
       (case py_float (float_of_str e) (dict_get (req_data req) ''latitude'') of
          Inl err \<Rightarrow> (tbl, Inl err)
        | Inr user_lat \<Rightarrow>
       (case py_float (float_of_str e) (dict_get (req_data req) ''longitude'') of
          Inl err \<Rightarrow> (tbl, Inl err)
        | Inr user_lon \<Rightarrow>
       (let attendance = first (order_by_id_desc (filter_today tbl (req_user req) (today ck)))
        in
       (case find_nearest e user_lat user_lon of (nearest, nearest_distance) \<Rightarrow>
       (if fl_gt nearest_distance (PUNCH_RADIUS e) then
          (case nearest of
             None \<Rightarrow> (tbl, Inl TypeError)
           | Some b \<Rightarrow>
               (tbl, Inr \<lparr>status_code = 400, status = ''failed'',
                          message = ''You are out of range'',
                          branch = None, nearest_branch = Some (name b),
                          distance = Some (round2 nearest_distance), data = None\<rparr>))
        else
          (case attendance of
            Some a \<Rightarrow>
              (if punch_out_time a = None then
                (tbl, Inr \<lparr>status_code = 400, status = ''failed'',
                           message = ''You are already punched in today'',
                           branch = None, nearest_branch = None, distance = None,
                           data = Some a\<rparr>)
              else
                (let a' = a\<lparr>punch_in_time := Some (now ck),
                           punch_in_lat := Some user_lat,
                           punch_in_lon := Some user_lon,
                           punch_out_time := None,
                           punch_out_lat := None,
                           punch_out_lon := None\<rparr>;
                    tbl' = save tbl a'
                in (case nearest of
                      None \<Rightarrow> (tbl', Inl TypeError)
                    | Some b \<Rightarrow>
                        (tbl', Inr \<lparr>status_code = 201, status = ''success'',
                                    message = ''Punch in updated successfully'' @ '' at '' @ name b,
                                    branch = Some (name b), nearest_branch = None,
                                    distance = Some (round2 nearest_distance),
                                    data = Some a'\<rparr>))))
          | None \<Rightarrow>
              (case create tbl (req_user req) (now ck) user_lat user_lon of (tbl', a') \<Rightarrow>
                 (case nearest of
                    None \<Rightarrow> (tbl', Inl TypeError)
                  | Some b \<Rightarrow>
                      (tbl', Inr \<lparr>status_code = 201, status = ''success'',
                                  message = ''Punch in successful'' @ '' at '' @ name b,
                                  branch = Some (name b), nearest_branch = None,
                                  distance = Some (round2 nearest_distance),
                                  data = Some a'\<rparr>))))))))))"

subsection \<open>PunchOutView.post\<close>

text \<open>
  The same first two steps; then the view reads an open row of today and answers at once
  when there is none, before it looks at the branches.
\<close>

definition PunchOutView_post :: "env \<Rightarrow> clock \<Rightarrow> table \<Rightarrow> request \<Rightarrow> table \<times> outcome" where
  "PunchOutView_post e ck tbl req =
     (if req_data req ''latitude'' = None \<or> req_data req ''longitude'' = None then
        (tbl, Inr \<lparr>status_code = 400, status = ''failed'',
                   message = ''latitude & longitude are required'',
                   branch = None, nearest_branch = None, distance = None, data = None\<rparr>)
      else
       (case py_float (float_of_str e) (dict_get (req_data req) ''latitude'') of
          Inl err \<Rightarrow> (tbl, Inl err)
        | Inr user_lat \<Rightarrow>
       (case py_float (float_of_str e) (dict_get (req_data req) ''longitude'') of
          Inl err \<Rightarrow> (tbl, Inl err)
        | Inr user_lon \<Rightarrow>
       (case first (order_by_pk (filter_active tbl (req_user req) (today ck))) of
          None \<Rightarrow>
            (tbl, Inr \<lparr>status_code = 400, status = ''failed'',
                       message = ''You have not punched in today'',
                       branch = None, nearest_branch = None, distance = None, data = None\<rparr>)
        | Some a \<Rightarrow>
       (case find_nearest e user_lat user_lon of (nearest, min_distance) \<Rightarrow>
       (if fl_gt min_distance (PUNCH_RADIUS e) then
          (case nearest of
             None \<Rightarrow> (tbl, Inl TypeError)
           | Some b \<Rightarrow>
               (tbl, Inr \<lparr>status_code = 400, status = ''failed'',
                          message = ''You are out of range for '' @ name b,
                          branch = Some (name b), nearest_branch = None,
                          distance = Some (round2 min_distance), data = None\<rparr>))
        else
          (let a' = a\<lparr>punch_out_time := Some (now ck),
                     punch_out_lat := Some user_lat,
                     punch_out_lon := Some user_lon\<rparr>;
              tbl' = save tbl a'
          in (case nearest of
                None \<Rightarrow> (tbl', Inl TypeError)
              | Some b \<Rightarrow>
                  (tbl', Inr \<lparr>status_code = 200, status = ''success'',
                              message = ''Punch out successful'',
                              branch = Some (name b), nearest_branch = None,
                              distance = Some (round2 min_distance),
                              data = Some a'\<rparr>)))))))))"

subsection \<open>TodayAttendanceView.get\<close>

definition TodayAttendanceView_get :: "clock \<Rightarrow> table \<Rightarrow> nat \<Rightarrow> table \<times> today_response" where
  "TodayAttendanceView_get ck tbl u =
     (case first (order_by_id_desc (filter_today tbl u (today ck))) of
        None \<Rightarrow>
          (tbl, \<lparr>today_status_code = 200, today_status = ''success'',
                 today_data = \<lparr>is_punched_in = False, has_punched_out = False,
                                view_punch_in_time = None, view_punch_out_time = None,
                                view_branch = None, view_distance = None, raw = None\<rparr>\<rparr>)
      | Some a \<Rightarrow>
          (let punched_in = (punch_in_time a \<noteq> None);
               punched_out = (punch_out_time a \<noteq> None)
           in (tbl, \<lparr>today_status_code = 200, today_status = ''success'',
                     today_data = \<lparr>is_punched_in = (punched_in \<and> \<not> punched_out),
                                    has_punched_out = punched_out,
                                    view_punch_in_time = punch_in_time a,
                                    view_punch_out_time = punch_out_time a,
                                    view_branch = None, view_distance = None,
                                    raw = Some a\<rparr>\<rparr>)))"

subsection \<open>The out-of-range rejection\<close>

text \<open>
  The specification calls the rejection of a punch from too far away OutOfRangeError. In
  the views it is the 400 answer with status \<open>failed\<close> whose message begins with
  \<open>You are out of range\<close> (the punch-out view appends the branch).
\<close>

definition OutOfRangeError :: "response \<Rightarrow> bool" where
  "OutOfRangeError r =
     (status_code r = 400 \<and> status r = ''failed'' \<and> prefix ''You are out of range'' (message r))"

subsection \<open>A configuration to run the views on\<close>

text \<open>
  Two branches on a line, 150 and 300 from the origin, radius 200, and a distance that
  is computable by hand (the sum of the two coordinate differences; NaN when an argument
  is no number). The string parser knows the literals \<open>0\<close> and \<open>500\<close>.
\<close>

fun ex_distance :: "pyfloat \<Rightarrow> pyfloat \<Rightarrow> pyfloat \<Rightarrow> pyfloat \<Rightarrow> pyfloat" where
  "ex_distance (Finite a) (Finite b) (Finite c) (Finite d) = Finite (\<bar>a - c\<bar> + \<bar>b - d\<bar>)"
| "ex_distance _ _ _ _ = NaN"

definition ex_float_of_str :: "string \<Rightarrow> pyfloat option" where
  "ex_float_of_str s =
     (if s = ''0'' then Some (Finite 0)
      else if s = ''500'' then Some (Finite 500)
      else None)"

definition branch_A :: branch where
  "branch_A = \<lparr>name = ''A'', lat = Finite 150, lon = Finite 0\<rparr>"

definition branch_B :: branch where
  "branch_B = \<lparr>name = ''B'', lat = Finite 300, lon = Finite 0\<rparr>"

definition ex_env :: env where
  "ex_env = \<lparr>BRANCHES = [branch_A, branch_B], PUNCH_RADIUS = Finite 200,
             calculate_distance = ex_distance, float_of_str = ex_float_of_str\<rparr>"

text \<open>Day 7, at time 100 and at time 200 of the day.\<close>

definition ex_clock :: clock where
  "ex_clock = \<lparr>today = 7, now = (7, 100)\<rparr>"

definition ex_clock_later :: clock where
  "ex_clock_later = \<lparr>today = 7, now = (7, 200)\<rparr>"

text \<open>Requests of user 1: from the origin, from 500 away, with no body, with a null latitude.\<close>

definition req_near :: request where
  "req_near = \<lparr>req_user = 1, req_data = [''latitude'' \<mapsto> Num (Finite 0), ''longitude'' \<mapsto> Str ''0'']\<rparr>"

definition req_far :: request where
  "req_far = \<lparr>req_user = 1, req_data = [''latitude'' \<mapsto> Num (Finite 0), ''longitude'' \<mapsto> Str ''500'']\<rparr>"

definition req_empty :: request where
  "req_empty = \<lparr>req_user = 1, req_data = Map.empty\<rparr>"

definition req_null :: request where
  "req_null = \<lparr>req_user = 1, req_data = [''latitude'' \<mapsto> Null, ''longitude'' \<mapsto> Num (Finite 0)]\<rparr>"

text \<open>A request of user 1 whose latitude is a string that is no number.\<close>

definition req_text :: request where
  "req_text = \<lparr>req_user = 1, req_data = [''latitude'' \<mapsto> Str ''abc'', ''longitude'' \<mapsto> Num (Finite 0)]\<rparr>"

text \<open>Rows of user 1 on day 7: an open one and a closed one, under the keys 1 and 2.\<close>

definition row_open :: "nat \<Rightarrow> attendance" where
  "row_open i = \<lparr>att_id = i, user = 1, punch_in_time = Some (7, 10),
                  punch_in_lat = Some (Finite 0), punch_in_lon = Some (Finite 0),
                  punch_out_time = None, punch_out_lat = None, punch_out_lon = None\<rparr>"

definition row_closed :: "nat \<Rightarrow> attendance" where
  "row_closed i = \<lparr>att_id = i, user = 1, punch_in_time = Some (7, 10),
                    punch_in_lat = Some (Finite 0), punch_in_lon = Some (Finite 0),
                    punch_out_time = Some (7, 50), punch_out_lat = Some (Finite 0),
                    punch_out_lon = Some (Finite 0)\<rparr>"

text \<open>
  The row that the first punch-in of user 1 on day 7 creates, and that row after the
  punch-out at time 200; the open row under key 1 after a punch-out at time 100, and the
  closed row under key 2 after a new punch-in at time 100.
\<close>

definition row_fresh :: attendance where
  "row_fresh = \<lparr>att_id = 1, user = 1, punch_in_time = Some (7, 100),
                 punch_in_lat = Some (Finite 0), punch_in_lon = Some (Finite 0),
                 punch_out_time = None, punch_out_lat = None, punch_out_lon = None\<rparr>"

definition row_done :: attendance where
  "row_done = row_fresh\<lparr>punch_out_time := Some (7, 200), punch_out_lat := Some (Finite 0),
                         punch_out_lon := Some (Finite 0)\<rparr>"

definition row_left :: attendance where
  "row_left = (row_open 1)\<lparr>punch_out_time := Some (7, 100), punch_out_lat := Some (Finite 0),
                           punch_out_lon := Some (Finite 0)\<rparr>"

definition row_reopened :: attendance where
  "row_reopened = (row_closed 2)\<lparr>punch_in_time := Some (7, 100), punch_in_lat := Some (Finite 0),
                                 punch_in_lon := Some (Finite 0), punch_out_time := None,
                                 punch_out_lat := None, punch_out_lon := None\<rparr>"

text \<open>The success responses at branch A, 150 away.\<close>

definition resp_in :: "string \<Rightarrow> attendance \<Rightarrow> response" where
  "resp_in msg a = \<lparr>status_code = 201, status = ''success'', message = msg,
                    branch = Some ''A'', nearest_branch = None,
                    distance = Some (Finite 150), data = Some a\<rparr>"

definition resp_out :: "attendance \<Rightarrow> response" where
  "resp_out a = \<lparr>status_code = 200, status = ''success'', message = ''Punch out successful'',
                 branch = Some ''A'', nearest_branch = None,
                 distance = Some (Finite 150), data = Some a\<rparr>"

section \<open>Facts about the queries and the table\<close>

lemma fl_gt_irrefl: "\<not> fl_gt a a"
  by (cases a) (simp_all add: fl_gt_def)

lemma first_eq_None: "first rows = None \<longleftrightarrow> rows = []"
  by (cases rows) (simp_all add: first_def)

lemma first_eq_Some: "first rows = Some a \<longleftrightarrow> (\<exists>rest. rows = a # rest)"
  by (cases rows) (auto simp: first_def)

lemma sort_key_eq_Nil: "sort_key f xs = [] \<longleftrightarrow> xs = []"
  by (metis length_0_conv length_sort)

lemma latest_None: "first (order_by_id_desc rows) = None \<longleftrightarrow> rows = []"
  by (simp add: first_eq_None order_by_id_desc_def sort_key_eq_Nil)

text \<open>The row that \<open>order_by('-id').first()\<close> returns is a row of the query with the highest key.\<close>

lemma latest_SomeD:
  assumes "first (order_by_id_desc rows) = Some a"
  shows "a \<in> set rows" and "\<forall>r\<in>set rows. att_id r \<le> att_id a"
proof -
  from assms obtain rest where r: "rev (sort_key att_id rows) = a # rest"
    by (auto simp: first_eq_Some order_by_id_desc_def)
  then have s: "sort_key att_id rows = rev rest @ [a]"
    by (metis rev_rev_ident rev.simps(2))
  have eq: "set (sort_key att_id rows) = set rows" by simp
  with s show "a \<in> set rows" by auto
  have "sorted (map att_id (sort_key att_id rows))" by (rule sorted_sort_key)
  with s have "\<forall>x\<in>set (rev rest). att_id x \<le> att_id a"
    by (simp add: sorted_append)
  moreover have "set rows = set (rev rest) \<union> {a}"
    using s eq by (metis set_append list.set(1) list.simps(15))
  ultimately show "\<forall>r\<in>set rows. att_id r \<le> att_id a" by auto
qed

lemma oldest_None: "first (order_by_pk rows) = None \<longleftrightarrow> rows = []"
  by (simp add: first_eq_None order_by_pk_def sort_key_eq_Nil)

text \<open>The row that a bare \<open>first()\<close> returns is a row of the query with the lowest key.\<close>

lemma oldest_SomeD:
  assumes "first (order_by_pk rows) = Some a"
  shows "a \<in> set rows" and "\<forall>r\<in>set rows. att_id a \<le> att_id r"
proof -
  from assms obtain rest where s: "sort_key att_id rows = a # rest"
    by (auto simp: first_eq_Some order_by_pk_def)
  have eq: "set (sort_key att_id rows) = set rows" by simp
  with s show "a \<in> set rows" by auto
  have "sorted (map att_id (sort_key att_id rows))" by (rule sorted_sort_key)
  with s have "\<forall>x\<in>set rest. att_id a \<le> att_id x" by simp
  moreover have "set rows = insert a (set rest)" using s eq by (metis list.simps(15))
  ultimately show "\<forall>r\<in>set rows. att_id a \<le> att_id r" by auto
qed

lemma next_id_above: "r \<in> set tbl \<Longrightarrow> att_id r < next_id tbl"
  unfolding next_id_def by (induction tbl) (auto simp: less_Suc_eq_le max_def)

section \<open>Facts about the loops over the branches\<close>

lemma fl_le_finite: "fl_le (Finite a) (Finite b) \<longleftrightarrow> a \<le> b"
  by (auto simp: fl_le_def)

text \<open>
  The loop from an accumulator with a finite distance, over branches that all have finite
  distances: either no branch was strictly nearer and the accumulator is returned, or the
  list splits at the branch returned, every branch before it strictly farther and no branch
  behind it strictly nearer.
\<close>

lemma nearest_loop_finite:
  assumes "\<forall>q\<in>set bs. \<exists>r. calculate_distance e x y (lat q) (lon q) = Finite r"
    and "nearest_loop e x y bs (nb, Finite r0) = (rb, rd)"
  shows "(rb = nb \<and> rd = Finite r0 \<and>
            (\<forall>q\<in>set bs. \<not> fl_lt (calculate_distance e x y (lat q) (lon q)) (Finite r0)))
       \<or> (\<exists>pre b post. bs = pre @ b # post \<and> rb = Some b
            \<and> rd = calculate_distance e x y (lat b) (lon b)
            \<and> fl_lt rd (Finite r0)
            \<and> (\<forall>p\<in>set pre. fl_lt rd (calculate_distance e x y (lat p) (lon p)))
            \<and> (\<forall>q\<in>set post. \<not> fl_lt (calculate_distance e x y (lat q) (lon q)) rd))"
  using assms
proof (induction bs arbitrary: nb r0)
  case Nil
  then show ?case by simp
next
  case (Cons c cs)
  let ?dist = "\<lambda>q. calculate_distance e x y (lat q) (lon q)"
  from Cons.prems(1) obtain rc where rc: "?dist c = Finite rc" by auto
  have fin: "\<forall>q\<in>set cs. \<exists>r. ?dist q = Finite r" using Cons.prems(1) by simp
  show ?case
  proof (cases "rc < r0")
    case True
    with rc Cons.prems(2) have run: "nearest_loop e x y cs (Some c, Finite rc) = (rb, rd)"
      by simp
    from Cons.IH [OF fin run] show ?thesis
    proof (elim disjE exE conjE)
      assume "rb = Some c" "rd = Finite rc"
        and "\<forall>q\<in>set cs. \<not> fl_lt (?dist q) (Finite rc)"
      with rc True have "c # cs = [] @ c # cs \<and> rb = Some c \<and> rd = ?dist c
            \<and> fl_lt rd (Finite r0) \<and> (\<forall>p\<in>set []. fl_lt rd (?dist p))
            \<and> (\<forall>q\<in>set cs. \<not> fl_lt (?dist q) rd)"
        by simp
      then show ?thesis by blast
    next
      fix pre b post
      assume s: "cs = pre @ b # post" "rb = Some b" "rd = ?dist b" "fl_lt rd (Finite rc)"
        "\<forall>p\<in>set pre. fl_lt rd (?dist p)" "\<forall>q\<in>set post. \<not> fl_lt (?dist q) rd"
      from fin s(1) obtain r where r: "?dist b = Finite r" by auto
      with s(3,4) True rc have "fl_lt rd (Finite r0)" "fl_lt rd (?dist c)" by simp_all
      with s have "c # cs = (c # pre) @ b # post \<and> rb = Some b \<and> rd = ?dist b
            \<and> fl_lt rd (Finite r0) \<and> (\<forall>p\<in>set (c # pre). fl_lt rd (?dist p))
            \<and> (\<forall>q\<in>set post. \<not> fl_lt (?dist q) rd)"
        by simp
      then show ?thesis by blast
    qed
  next
    case False
    with rc Cons.prems(2) have run: "nearest_loop e x y cs (nb, Finite r0) = (rb, rd)"
      by simp
    from Cons.IH [OF fin run] show ?thesis
    proof (elim disjE exE conjE)
      assume "rb = nb" "rd = Finite r0"
        and "\<forall>q\<in>set cs. \<not> fl_lt (?dist q) (Finite r0)"
      with rc False show ?thesis by simp
    next
      fix pre b post
      assume s: "cs = pre @ b # post" "rb = Some b" "rd = ?dist b" "fl_lt rd (Finite r0)"
        "\<forall>p\<in>set pre. fl_lt rd (?dist p)" "\<forall>q\<in>set post. \<not> fl_lt (?dist q) rd"
      from fin s(1) obtain r where r: "?dist b = Finite r" by auto
      with s(3,4) False rc have "fl_lt rd (?dist c)" by simp
      with s have "c # cs = (c # pre) @ b # post \<and> rb = Some b \<and> rd = ?dist b
            \<and> fl_lt rd (Finite r0) \<and> (\<forall>p\<in>set (c # pre). fl_lt rd (?dist p))
            \<and> (\<forall>q\<in>set post. \<not> fl_lt (?dist q) rd)"
        by simp
      then show ?thesis by blast
    qed
  qed
qed

text \<open>The branch that the loop returns is the first one at the least distance.\<close>

lemma find_nearest_first_least:
  assumes "BRANCHES e \<noteq> []"
    and "\<forall>q\<in>set (BRANCHES e). \<exists>r. calculate_distance e x y (lat q) (lon q) = Finite r"
  shows "\<exists>pre b post. BRANCHES e = pre @ b # post
       \<and> find_nearest e x y = (Some b, calculate_distance e x y (lat b) (lon b))
       \<and> (\<forall>q\<in>set (BRANCHES e).
             fl_le (calculate_distance e x y (lat b) (lon b)) (calculate_distance e x y (lat q) (lon q)))
       \<and> (\<forall>p\<in>set pre.
             fl_lt (calculate_distance e x y (lat b) (lon b)) (calculate_distance e x y (lat p) (lon p)))"
proof -
  let ?dist = "\<lambda>q. calculate_distance e x y (lat q) (lon q)"
  from assms(1) obtain c cs where bs: "BRANCHES e = c # cs" by (cases "BRANCHES e") auto
  from assms(2) bs obtain rc where rc: "?dist c = Finite rc" by auto
  have fin: "\<forall>q\<in>set cs. \<exists>r. ?dist q = Finite r" using assms(2) bs by simp
  obtain rb rd where res: "nearest_loop e x y cs (Some c, Finite rc) = (rb, rd)"
    by (cases "nearest_loop e x y cs (Some c, Finite rc)") auto
  have fn: "find_nearest e x y = (rb, rd)"
    using bs rc res by (simp add: find_nearest_def)
  have le: "fl_le (?dist b) (?dist q)"
    if "\<not> fl_lt (?dist q) (?dist b)" "b \<in> set (BRANCHES e)" "q \<in> set (BRANCHES e)" for b q
  proof -
    from assms(2) that(2,3) obtain r1 r2 where "?dist b = Finite r1" "?dist q = Finite r2"
      by blast
    with that(1) show ?thesis by (simp add: fl_le_finite)
  qed
  have le': "fl_le (?dist b) (?dist q)"
    if "fl_lt (?dist b) (?dist q)" "b \<in> set (BRANCHES e)" for b q
    using that assms(2) by (auto simp: fl_le_def)
  have refl: "fl_le (?dist b) (?dist b)" if "b \<in> set (BRANCHES e)" for b
    using that assms(2) by (auto simp: fl_le_def)
  from nearest_loop_finite [OF fin res] show ?thesis
  proof (elim disjE exE conjE)
    assume a: "rb = Some c" "rd = Finite rc" "\<forall>q\<in>set cs. \<not> fl_lt (?dist q) (Finite rc)"
    have "BRANCHES e = [] @ c # cs" using bs by simp
    moreover have "find_nearest e x y = (Some c, ?dist c)" using fn a rc by simp
    moreover have "\<forall>q\<in>set (BRANCHES e). fl_le (?dist c) (?dist q)"
    proof
      fix q assume q: "q \<in> set (BRANCHES e)"
      have c: "c \<in> set (BRANCHES e)" using bs by simp
      from q bs have "q = c \<or> q \<in> set cs" by auto
      then show "fl_le (?dist c) (?dist q)"
      proof
        assume "q = c" with refl [OF c] show ?thesis by simp
      next
        assume "q \<in> set cs"
        with a(3) rc have "\<not> fl_lt (?dist q) (?dist c)" by simp
        from le [OF this c q] show ?thesis .
      qed
    qed
    moreover have "\<forall>p\<in>set []. fl_lt (?dist c) (?dist p)" by simp
    ultimately show ?thesis by blast
  next
    fix pre b post
    assume s: "cs = pre @ b # post" "rb = Some b" "rd = ?dist b" "fl_lt rd (Finite rc)"
      "\<forall>p\<in>set pre. fl_lt rd (?dist p)" "\<forall>q\<in>set post. \<not> fl_lt (?dist q) rd"
    have mem: "b \<in> set (BRANCHES e)" using bs s(1) by simp
    have "BRANCHES e = (c # pre) @ b # post" using bs s(1) by simp
    moreover have "find_nearest e x y = (Some b, ?dist b)" using fn s by simp
    moreover have "\<forall>p\<in>set (c # pre). fl_lt (?dist b) (?dist p)"
      using s(3,4,5) rc by simp
    moreover have "\<forall>q\<in>set (BRANCHES e). fl_le (?dist b) (?dist q)"
    proof
      fix q assume "q \<in> set (BRANCHES e)"
      then have "q = c \<or> q \<in> set pre \<or> q = b \<or> q \<in> set post" using bs s(1) by auto
      then show "fl_le (?dist b) (?dist q)"
        using s(3,4,5,6) rc le le' refl mem \<open>q \<in> set (BRANCHES e)\<close> by metis
    qed
    ultimately show ?thesis by blast
  qed
qed

lemma detect_branch_loop_hit:
  assumes "\<forall>p\<in>set pre. \<not> fl_le (calculate_distance e x y (lat p) (lon p)) (PUNCH_RADIUS e)"
    and "fl_le (calculate_distance e x y (lat b) (lon b)) (PUNCH_RADIUS e)"
  shows "detect_branch_loop e x y (pre @ b # post) =
           (True, Some (name b), Some (calculate_distance e x y (lat b) (lon b)))"
  using assms by (induction pre) (simp_all add: Let_def)

lemma detect_branch_loop_miss:
  assumes "\<forall>q\<in>set bs. \<not> fl_le (calculate_distance e x y (lat q) (lon q)) (PUNCH_RADIUS e)"
  shows "detect_branch_loop e x y bs = (False, None, None)"
  using assms by (induction bs) (simp_all add: Let_def)

lemma nearest_loop_cong:
  "calculate_distance e' = calculate_distance e \<Longrightarrow>
   nearest_loop e' x y bs acc = nearest_loop e x y bs acc"
proof (induction bs arbitrary: acc)
  case Nil
  show ?case by simp
next
  case (Cons b bs)
  obtain nb nd where acc: "acc = (nb, nd)" by (cases acc)
  show ?case unfolding acc nearest_loop.simps Cons.prems Let_def
    by (simp only: Cons.IH [OF Cons.prems])
qed

lemma find_nearest_cong:
  "BRANCHES e' = BRANCHES e \<Longrightarrow> calculate_distance e' = calculate_distance e \<Longrightarrow>
   find_nearest e' x y = find_nearest e x y"
  unfolding find_nearest_def using nearest_loop_cong [of e' e x y "BRANCHES e" "(None, PInf)"]
  by simp

section \<open>Facts about the latest row\<close>

lemma filter_active_subset: "set (filter_active tbl u d) \<subseteq> set (filter_today tbl u d)"
  by (auto simp: filter_active_def filter_today_def)

lemma filter_active_Nil: "filter_today tbl u d = [] \<Longrightarrow> filter_active tbl u d = []"
  using filter_active_subset [of tbl u d] by simp

lemma latest_after_create:
  assumes "on_day d new" and "user new = u" and "att_id new = next_id tbl"
  shows "first (order_by_id_desc (filter_today (tbl @ [new]) u d)) = Some new"
proof -
  let ?L = "filter_today (tbl @ [new]) u d"
  have L: "?L = filter_today tbl u d @ [new]"
    using assms by (simp add: filter_today_def)
  then have "?L \<noteq> []" by simp
  then obtain r where r: "first (order_by_id_desc ?L) = Some r"
    using latest_None [of ?L] by (cases "first (order_by_id_desc ?L)") auto
  from latest_SomeD [OF r] L have mem: "r \<in> set (filter_today tbl u d) \<or> r = new"
    and top: "att_id new \<le> att_id r" by auto
  have "r = new"
  proof (rule ccontr)
    assume "r \<noteq> new"
    with mem have "r \<in> set tbl" by (auto simp: filter_today_def)
    from next_id_above [OF this] top assms(3) show False by simp
  qed
  with r show ?thesis by simp
qed

lemma latest_after_save:
  assumes "a \<in> set (filter_today tbl u d)"
    and "\<forall>r\<in>set (filter_today tbl u d). att_id r \<le> att_id a"
    and "att_id a' = att_id a" and "user a' = u" and "on_day d a'"
  shows "first (order_by_id_desc (filter_today (save tbl a') u d)) = Some a'"
proof -
  let ?L = "filter_today (save tbl a') u d"
  have in_save: "a' \<in> set (save tbl a')"
    using assms(1,3) by (auto simp: save_def filter_today_def image_iff)
  then have a'L: "a' \<in> set ?L" using assms(4,5) by (simp add: filter_today_def)
  then have "?L \<noteq> []" by auto
  then obtain r where r: "first (order_by_id_desc ?L) = Some r"
    using latest_None [of ?L] by (cases "first (order_by_id_desc ?L)") auto
  from latest_SomeD [OF r] a'L have rL: "r \<in> set ?L" and top: "att_id a' \<le> att_id r" by auto
  have "r = a'"
  proof (rule ccontr)
    assume ne: "r \<noteq> a'"
    from rL have "r \<in> set (save tbl a')" and f: "user r = u \<and> on_day d r"
      by (simp_all add: filter_today_def)
    with ne assms(3) have "r \<in> set tbl" and id: "att_id r \<noteq> att_id a"
      by (auto simp: save_def split: if_splits)
    with f have "r \<in> set (filter_today tbl u d)" by (simp add: filter_today_def)
    with assms(2) have "att_id r \<le> att_id a" by simp
    with top assms(3) id show False by simp
  qed
  with r show ?thesis by simp
qed

section \<open>The views, branch by branch\<close>

text \<open>
  Each view unfolded along its own order of checks: one equation for every way through
  the view, under the conditions that lead there.
\<close>

lemma today_of_latest:
  assumes "first (order_by_id_desc (filter_today tbl u (today ck))) = Some a"
  shows "is_punched_in (today_data (snd (TodayAttendanceView_get ck tbl u)))
           = (punch_in_time a \<noteq> None \<and> punch_out_time a = None)"
    and "has_punched_out (today_data (snd (TodayAttendanceView_get ck tbl u)))
           = (punch_out_time a \<noteq> None)"
    and "raw (today_data (snd (TodayAttendanceView_get ck tbl u))) = Some a"
    and "fst (TodayAttendanceView_get ck tbl u) = tbl"
proof -
  have v: "TodayAttendanceView_get ck tbl u =
      (tbl, \<lparr>today_status_code = 200, today_status = ''success'',
                     today_data = \<lparr>is_punched_in = (punch_in_time a \<noteq> None \<and> \<not> punch_out_time a \<noteq> None),
                                    has_punched_out = (punch_out_time a \<noteq> None),
                                    view_punch_in_time = punch_in_time a,
                                    view_punch_out_time = punch_out_time a,
                                    view_branch = None, view_distance = None,
                                    raw = Some a\<rparr>\<rparr>)"
    unfolding TodayAttendanceView_get_def Let_def assms by (simp only: option.case)
  show "is_punched_in (today_data (snd (TodayAttendanceView_get ck tbl u)))
           = (punch_in_time a \<noteq> None \<and> punch_out_time a = None)"
    unfolding v by (cases "punch_out_time a") simp_all
  show "has_punched_out (today_data (snd (TodayAttendanceView_get ck tbl u)))
           = (punch_out_time a \<noteq> None)"
    unfolding v by (cases "punch_out_time a") simp_all
  show "raw (today_data (snd (TodayAttendanceView_get ck tbl u))) = Some a"
    and "fst (TodayAttendanceView_get ck tbl u) = tbl"
    unfolding v by simp_all
qed

lemma PunchInView_post_missing:
  "req_data req ''latitude'' = None \<or> req_data req ''longitude'' = None \<Longrightarrow>
   PunchInView_post e ck tbl req =
     (tbl, Inr \<lparr>status_code = 400, status = ''failed'',
                message = ''latitude & longitude are required'',
                branch = None, nearest_branch = None, distance = None, data = None\<rparr>)"
  by (simp add: PunchInView_post_def)

lemma PunchInView_post_raises:
  assumes "req_data req ''latitude'' = Some vlat" and "req_data req ''longitude'' = Some vlon"
  shows "py_float (float_of_str e) vlat = Inl err \<Longrightarrow>
           PunchInView_post e ck tbl req = (tbl, Inl err)"
    and "py_float (float_of_str e) vlat = Inr user_lat \<Longrightarrow>
         py_float (float_of_str e) vlon = Inl err \<Longrightarrow>
           PunchInView_post e ck tbl req = (tbl, Inl err)"
  using assms by (simp_all add: PunchInView_post_def dict_get_def)

lemma PunchInView_post_far:
  assumes "req_data req ''latitude'' = Some vlat" and "req_data req ''longitude'' = Some vlon"
    and "py_float (float_of_str e) vlat = Inr user_lat"
    and "py_float (float_of_str e) vlon = Inr user_lon"
    and "find_nearest e user_lat user_lon = (nearest, d)"
    and "fl_gt d (PUNCH_RADIUS e)"
  shows "PunchInView_post e ck tbl req =
          (case nearest of
             None \<Rightarrow> (tbl, Inl TypeError)
           | Some b \<Rightarrow>
               (tbl, Inr \<lparr>status_code = 400, status = ''failed'',
                          message = ''You are out of range'',
                          branch = None, nearest_branch = Some (name b),
                          distance = Some (round2 d), data = None\<rparr>))"
  using assms by (simp add: PunchInView_post_def dict_get_def)

lemma PunchInView_post_near:
  assumes "req_data req ''latitude'' = Some vlat" and "req_data req ''longitude'' = Some vlon"
    and "py_float (float_of_str e) vlat = Inr user_lat"
    and "py_float (float_of_str e) vlon = Inr user_lon"
    and "find_nearest e user_lat user_lon = (nearest, d)"
    and "\<not> fl_gt d (PUNCH_RADIUS e)"
  shows "first (order_by_id_desc (filter_today tbl (req_user req) (today ck))) = None \<Longrightarrow>
         PunchInView_post e ck tbl req =
           (case nearest of
              None \<Rightarrow> (fst (create tbl (req_user req) (now ck) user_lat user_lon), Inl TypeError)
            | Some b \<Rightarrow>
                (fst (create tbl (req_user req) (now ck) user_lat user_lon),
                 Inr \<lparr>status_code = 201, status = ''success'',
                      message = ''Punch in successful'' @ '' at '' @ name b,
                      branch = Some (name b), nearest_branch = None,
                      distance = Some (round2 d),
                      data = Some (snd (create tbl (req_user req) (now ck) user_lat user_lon))\<rparr>))"
    and "first (order_by_id_desc (filter_today tbl (req_user req) (today ck))) = Some a \<Longrightarrow>
         punch_out_time a = None \<Longrightarrow>
         PunchInView_post e ck tbl req =
           (tbl, Inr \<lparr>status_code = 400, status = ''failed'',
                      message = ''You are already punched in today'',
                      branch = None, nearest_branch = None, distance = None,
                      data = Some a\<rparr>)"
    and "first (order_by_id_desc (filter_today tbl (req_user req) (today ck))) = Some a \<Longrightarrow>
         punch_out_time a = Some t \<Longrightarrow>
         a' = a\<lparr>punch_in_time := Some (now ck), punch_in_lat := Some user_lat,
                 punch_in_lon := Some user_lon, punch_out_time := None,
                 punch_out_lat := None, punch_out_lon := None\<rparr> \<Longrightarrow>
         PunchInView_post e ck tbl req =
           (case nearest of
              None \<Rightarrow> (save tbl a', Inl TypeError)
            | Some b \<Rightarrow>
                (save tbl a',
                 Inr \<lparr>status_code = 201, status = ''success'',
                      message = ''Punch in updated successfully'' @ '' at '' @ name b,
                      branch = Some (name b), nearest_branch = None,
                      distance = Some (round2 d), data = Some a'\<rparr>))"
proof -
  show "PunchInView_post e ck tbl req =
           (case nearest of
              None \<Rightarrow> (fst (create tbl (req_user req) (now ck) user_lat user_lon), Inl TypeError)
            | Some b \<Rightarrow>
                (fst (create tbl (req_user req) (now ck) user_lat user_lon),
                 Inr \<lparr>status_code = 201, status = ''success'',
                      message = ''Punch in successful'' @ '' at '' @ name b,
                      branch = Some (name b), nearest_branch = None,
                      distance = Some (round2 d),
                      data = Some (snd (create tbl (req_user req) (now ck) user_lat user_lon))\<rparr>))"
    if "first (order_by_id_desc (filter_today tbl (req_user req) (today ck))) = None"
    using assms that
    by (cases nearest) (simp_all add: PunchInView_post_def dict_get_def create_def Let_def)
  show "PunchInView_post e ck tbl req =
           (tbl, Inr \<lparr>status_code = 400, status = ''failed'',
                      message = ''You are already punched in today'',
                      branch = None, nearest_branch = None, distance = None,
                      data = Some a\<rparr>)"
    if "first (order_by_id_desc (filter_today tbl (req_user req) (today ck))) = Some a"
      and "punch_out_time a = None"
    using assms that by (simp add: PunchInView_post_def dict_get_def)
  show "PunchInView_post e ck tbl req =
           (case nearest of
              None \<Rightarrow> (save tbl a', Inl TypeError)
            | Some b \<Rightarrow>
                (save tbl a',
                 Inr \<lparr>status_code = 201, status = ''success'',
                      message = ''Punch in updated successfully'' @ '' at '' @ name b,
                      branch = Some (name b), nearest_branch = None,
                      distance = Some (round2 d), data = Some a'\<rparr>))"
    if "first (order_by_id_desc (filter_today tbl (req_user req) (today ck))) = Some a"
      and "punch_out_time a = Some t"
      and "a' = a\<lparr>punch_in_time := Some (now ck), punch_in_lat := Some user_lat,
                 punch_in_lon := Some user_lon, punch_out_time := None,
                 punch_out_lat := None, punch_out_lon := None\<rparr>"
    using assms that
    by (cases nearest) (simp_all add: PunchInView_post_def dict_get_def Let_def)
qed

text \<open>
  What a 201 from punch-in and a 200 from punch-out say about the table they leave: which
  row was written, under which key, and with which times.
\<close>

lemma punch_in_success_cases:
  assumes run: "PunchInView_post e ck tbl req = (tbl1, Inr r1)" and ok: "status_code r1 = 201"
  shows "(\<exists>new. filter_today tbl (req_user req) (today ck) = [] \<and> tbl1 = tbl @ [new]
            \<and> att_id new = next_id tbl \<and> user new = req_user req
            \<and> punch_in_time new = Some (now ck) \<and> punch_out_time new = None
            \<and> data r1 = Some new)
       \<or> (\<exists>a a'. first (order_by_id_desc (filter_today tbl (req_user req) (today ck))) = Some a
            \<and> tbl1 = save tbl a' \<and> att_id a' = att_id a \<and> user a' = user a
            \<and> punch_in_time a' = Some (now ck) \<and> punch_out_time a' = None
            \<and> data r1 = Some a')"
proof -
  have "\<not> (req_data req ''latitude'' = None \<or> req_data req ''longitude'' = None)"
  proof
    assume "req_data req ''latitude'' = None \<or> req_data req ''longitude'' = None"
    from PunchInView_post_missing [OF this, of e ck tbl] run ok show False by simp
  qed
  then obtain vlat vlon where k1: "req_data req ''latitude'' = Some vlat"
    and k2: "req_data req ''longitude'' = Some vlon" by auto
  obtain user_lat where la: "py_float (float_of_str e) vlat = Inr user_lat"
    using PunchInView_post_raises(1) [OF k1 k2, of e _ ck tbl] run
    by (cases "py_float (float_of_str e) vlat") simp_all
  obtain user_lon where lo: "py_float (float_of_str e) vlon = Inr user_lon"
    using PunchInView_post_raises(2) [OF k1 k2 la, of _ ck tbl] run
    by (cases "py_float (float_of_str e) vlon") simp_all
  obtain nearest d where fn: "find_nearest e user_lat user_lon = (nearest, d)"
    by (cases "find_nearest e user_lat user_lon") auto
  have rng: "\<not> fl_gt d (PUNCH_RADIUS e)"
  proof
    assume "fl_gt d (PUNCH_RADIUS e)"
    from PunchInView_post_far [OF k1 k2 la lo fn this, of ck tbl] run ok show False
      by (cases nearest) simp_all
  qed
  note near = PunchInView_post_near [OF k1 k2 la lo fn rng, of tbl ck]
  show ?thesis
  proof (cases "first (order_by_id_desc (filter_today tbl (req_user req) (today ck)))")
    case None
    then have emp: "filter_today tbl (req_user req) (today ck) = []"
      by (simp add: latest_None)
    let ?new = "snd (create tbl (req_user req) (now ck) user_lat user_lon)"
    from near(1) [OF None] run
    have "tbl1 = fst (create tbl (req_user req) (now ck) user_lat user_lon) \<and> data r1 = Some ?new"
      by (cases nearest) auto
    with emp have "filter_today tbl (req_user req) (today ck) = [] \<and> tbl1 = tbl @ [?new]
            \<and> att_id ?new = next_id tbl \<and> user ?new = req_user req
            \<and> punch_in_time ?new = Some (now ck) \<and> punch_out_time ?new = None
            \<and> data r1 = Some ?new"
      by (simp add: create_def Let_def)
    then show ?thesis by blast
  next
    case (Some a)
    show ?thesis
    proof (cases "punch_out_time a")
      case None
      from near(2) [OF Some None] run ok show ?thesis by auto
    next
      case t: (Some t)
      let ?a' = "a\<lparr>punch_in_time := Some (now ck), punch_in_lat := Some user_lat,
                   punch_in_lon := Some user_lon, punch_out_time := None,
                   punch_out_lat := None, punch_out_lon := None\<rparr>"
      from near(3) [OF Some t refl] run have "tbl1 = save tbl ?a' \<and> data r1 = Some ?a'"
        by (cases nearest) auto
      with Some have "first (order_by_id_desc (filter_today tbl (req_user req) (today ck))) = Some a
            \<and> tbl1 = save tbl ?a' \<and> att_id ?a' = att_id a \<and> user ?a' = user a
            \<and> punch_in_time ?a' = Some (now ck) \<and> punch_out_time ?a' = None
            \<and> data r1 = Some ?a'"
        by simp
      then show ?thesis by blast
    qed
  qed
qed

lemma PunchOutView_post_missing:
  "req_data req ''latitude'' = None \<or> req_data req ''longitude'' = None \<Longrightarrow>
   PunchOutView_post e ck tbl req =
     (tbl, Inr \<lparr>status_code = 400, status = ''failed'',
                message = ''latitude & longitude are required'',
                branch = None, nearest_branch = None, distance = None, data = None\<rparr>)"
  by (simp add: PunchOutView_post_def)

lemma PunchOutView_post_raises:
  assumes "req_data req ''latitude'' = Some vlat" and "req_data req ''longitude'' = Some vlon"
  shows "py_float (float_of_str e) vlat = Inl err \<Longrightarrow>
           PunchOutView_post e ck tbl req = (tbl, Inl err)"
    and "py_float (float_of_str e) vlat = Inr user_lat \<Longrightarrow>
         py_float (float_of_str e) vlon = Inl err \<Longrightarrow>
           PunchOutView_post e ck tbl req = (tbl, Inl err)"
  using assms by (simp_all add: PunchOutView_post_def dict_get_def)

lemma PunchOutView_post_none:
  assumes "req_data req ''latitude'' = Some vlat" and "req_data req ''longitude'' = Some vlon"
    and "py_float (float_of_str e) vlat = Inr user_lat"
    and "py_float (float_of_str e) vlon = Inr user_lon"
    and "first (order_by_pk (filter_active tbl (req_user req) (today ck))) = None"
  shows "PunchOutView_post e ck tbl req =
           (tbl, Inr \<lparr>status_code = 400, status = ''failed'',
                      message = ''You have not punched in today'',
                      branch = None, nearest_branch = None, distance = None, data = None\<rparr>)"
  using assms by (simp add: PunchOutView_post_def dict_get_def)

lemma PunchOutView_post_some:
  assumes "req_data req ''latitude'' = Some vlat" and "req_data req ''longitude'' = Some vlon"
    and "py_float (float_of_str e) vlat = Inr user_lat"
    and "py_float (float_of_str e) vlon = Inr user_lon"
    and "first (order_by_pk (filter_active tbl (req_user req) (today ck))) = Some a"
    and "find_nearest e user_lat user_lon = (nearest, d)"
  shows "fl_gt d (PUNCH_RADIUS e) \<Longrightarrow>
         PunchOutView_post e ck tbl req =
          (case nearest of
             None \<Rightarrow> (tbl, Inl TypeError)
           | Some b \<Rightarrow>
               (tbl, Inr \<lparr>status_code = 400, status = ''failed'',
                          message = ''You are out of range for '' @ name b,
                          branch = Some (name b), nearest_branch = None,
                          distance = Some (round2 d), data = None\<rparr>))"
    and "\<not> fl_gt d (PUNCH_RADIUS e) \<Longrightarrow>
         a' = a\<lparr>punch_out_time := Some (now ck), punch_out_lat := Some user_lat,
                 punch_out_lon := Some user_lon\<rparr> \<Longrightarrow>
         PunchOutView_post e ck tbl req =
          (case nearest of
             None \<Rightarrow> (save tbl a', Inl TypeError)
           | Some b \<Rightarrow>
               (save tbl a', Inr \<lparr>status_code = 200, status = ''success'',
                          message = ''Punch out successful'',
                          branch = Some (name b), nearest_branch = None,
                          distance = Some (round2 d), data = Some a'\<rparr>))"
proof -
  show "PunchOutView_post e ck tbl req =
          (case nearest of
             None \<Rightarrow> (tbl, Inl TypeError)
           | Some b \<Rightarrow>
               (tbl, Inr \<lparr>status_code = 400, status = ''failed'',
                          message = ''You are out of range for '' @ name b,
                          branch = Some (name b), nearest_branch = None,
                          distance = Some (round2 d), data = None\<rparr>))"
    if "fl_gt d (PUNCH_RADIUS e)"
    using assms that by (simp add: PunchOutView_post_def dict_get_def)
  show "PunchOutView_post e ck tbl req =
          (case nearest of
             None \<Rightarrow> (save tbl a', Inl TypeError)
           | Some b \<Rightarrow>
               (save tbl a', Inr \<lparr>status_code = 200, status = ''success'',
                          message = ''Punch out successful'',
                          branch = Some (name b), nearest_branch = None,
                          distance = Some (round2 d), data = Some a'\<rparr>))"
    if "\<not> fl_gt d (PUNCH_RADIUS e)"
      and "a' = a\<lparr>punch_out_time := Some (now ck), punch_out_lat := Some user_lat,
                 punch_out_lon := Some user_lon\<rparr>"
    using assms that
    by (cases nearest) (simp_all add: PunchOutView_post_def dict_get_def Let_def)
qed

lemma punch_out_success_cases:
  assumes run: "PunchOutView_post e ck tbl req = (tbl2, Inr r2)" and ok: "status_code r2 = 200"
  shows "\<exists>a a'. first (order_by_pk (filter_active tbl (req_user req) (today ck))) = Some a
            \<and> tbl2 = save tbl a' \<and> att_id a' = att_id a \<and> user a' = user a
            \<and> punch_in_time a' = punch_in_time a \<and> punch_out_time a' = Some (now ck)
            \<and> data r2 = Some a'"
proof -
  have "\<not> (req_data req ''latitude'' = None \<or> req_data req ''longitude'' = None)"
  proof
    assume "req_data req ''latitude'' = None \<or> req_data req ''longitude'' = None"
    from PunchOutView_post_missing [OF this, of e ck tbl] run ok show False by simp
  qed
  then obtain vlat vlon where k1: "req_data req ''latitude'' = Some vlat"
    and k2: "req_data req ''longitude'' = Some vlon" by auto
  obtain user_lat where la: "py_float (float_of_str e) vlat = Inr user_lat"
    using PunchOutView_post_raises(1) [OF k1 k2, of e _ ck tbl] run
    by (cases "py_float (float_of_str e) vlat") simp_all
  obtain user_lon where lo: "py_float (float_of_str e) vlon = Inr user_lon"
    using PunchOutView_post_raises(2) [OF k1 k2 la, of _ ck tbl] run
    by (cases "py_float (float_of_str e) vlon") simp_all
  obtain a where sel: "first (order_by_pk (filter_active tbl (req_user req) (today ck))) = Some a"
    using PunchOutView_post_none [OF k1 k2 la lo, of tbl ck] run ok
    by (cases "first (order_by_pk (filter_active tbl (req_user req) (today ck)))") simp_all
  obtain nearest d where fn: "find_nearest e user_lat user_lon = (nearest, d)"
    by (cases "find_nearest e user_lat user_lon") auto
  note some = PunchOutView_post_some [OF k1 k2 la lo sel fn]
  have rng: "\<not> fl_gt d (PUNCH_RADIUS e)"
  proof
    assume "fl_gt d (PUNCH_RADIUS e)"
    from some(1) [OF this] run ok show False
      by (cases nearest) simp_all
  qed
  let ?a' = "a\<lparr>punch_out_time := Some (now ck), punch_out_lat := Some user_lat,
               punch_out_lon := Some user_lon\<rparr>"
  from some(2) [OF rng refl] run have "tbl2 = save tbl ?a' \<and> data r2 = Some ?a'"
    by (cases nearest) auto
  with sel have "first (order_by_pk (filter_active tbl (req_user req) (today ck))) = Some a
            \<and> tbl2 = save tbl ?a' \<and> att_id ?a' = att_id a \<and> user ?a' = user a
            \<and> punch_in_time ?a' = punch_in_time a \<and> punch_out_time ?a' = Some (now ck)
            \<and> data r2 = Some ?a'"
    by simp
  then show ?thesis by blast
qed

text \<open>
  The row that a response carries under \<open>data\<close> has the key of the row the view
  selected, or the new key when punch-in created the row.
\<close>

lemma punch_in_data_cases:
  assumes run: "PunchInView_post e ck tbl req = (tbl1, Inr r1)" and dat: "data r1 = Some x"
  shows "(filter_today tbl (req_user req) (today ck) = [] \<and> att_id x = next_id tbl)
       \<or> (\<exists>a. first (order_by_id_desc (filter_today tbl (req_user req) (today ck))) = Some a
            \<and> att_id x = att_id a)"
proof -
  have "\<not> (req_data req ''latitude'' = None \<or> req_data req ''longitude'' = None)"
  proof
    assume "req_data req ''latitude'' = None \<or> req_data req ''longitude'' = None"
    from PunchInView_post_missing [OF this, of e ck tbl] run dat show False by auto
  qed
  then obtain vlat vlon where k1: "req_data req ''latitude'' = Some vlat"
    and k2: "req_data req ''longitude'' = Some vlon" by auto
  obtain user_lat where la: "py_float (float_of_str e) vlat = Inr user_lat"
    using PunchInView_post_raises(1) [OF k1 k2, of e _ ck tbl] run
    by (cases "py_float (float_of_str e) vlat") simp_all
  obtain user_lon where lo: "py_float (float_of_str e) vlon = Inr user_lon"
    using PunchInView_post_raises(2) [OF k1 k2 la, of _ ck tbl] run
    by (cases "py_float (float_of_str e) vlon") simp_all
  obtain nearest d where fn: "find_nearest e user_lat user_lon = (nearest, d)"
    by (cases "find_nearest e user_lat user_lon") auto
  have rng: "\<not> fl_gt d (PUNCH_RADIUS e)"
  proof
    assume "fl_gt d (PUNCH_RADIUS e)"
    from PunchInView_post_far [OF k1 k2 la lo fn this, of ck tbl] run dat show False
      by (cases nearest) auto
  qed
  note near = PunchInView_post_near [OF k1 k2 la lo fn rng, of tbl ck]
  show ?thesis
  proof (cases "first (order_by_id_desc (filter_today tbl (req_user req) (today ck)))")
    case None
    then have emp: "filter_today tbl (req_user req) (today ck) = []"
      by (simp add: latest_None)
    from near(1) [OF None] run dat
    have "x = snd (create tbl (req_user req) (now ck) user_lat user_lon)"
      by (cases nearest) auto
    with emp show ?thesis by (simp add: create_def Let_def)
  next
    case (Some a)
    show ?thesis
    proof (cases "punch_out_time a")
      case None
      from near(2) [OF Some None] run dat have "x = a" by auto
      with Some show ?thesis by simp
    next
      case t: (Some t)
      from near(3) [OF Some t refl] run dat have "att_id x = att_id a"
        by (cases nearest) auto
      with Some show ?thesis by simp
    qed
  qed
qed

lemma punch_out_data_cases:
  assumes run: "PunchOutView_post e ck tbl req = (tbl2, Inr r2)" and dat: "data r2 = Some x"
  shows "\<exists>a. first (order_by_pk (filter_active tbl (req_user req) (today ck))) = Some a
            \<and> att_id x = att_id a"
proof -
  have "\<not> (req_data req ''latitude'' = None \<or> req_data req ''longitude'' = None)"
  proof
    assume "req_data req ''latitude'' = None \<or> req_data req ''longitude'' = None"
    from PunchOutView_post_missing [OF this, of e ck tbl] run dat show False by auto
  qed
  then obtain vlat vlon where k1: "req_data req ''latitude'' = Some vlat"
    and k2: "req_data req ''longitude'' = Some vlon" by auto
  obtain user_lat where la: "py_float (float_of_str e) vlat = Inr user_lat"
    using PunchOutView_post_raises(1) [OF k1 k2, of e _ ck tbl] run
    by (cases "py_float (float_of_str e) vlat") simp_all
  obtain user_lon where lo: "py_float (float_of_str e) vlon = Inr user_lon"
    using PunchOutView_post_raises(2) [OF k1 k2 la, of _ ck tbl] run
    by (cases "py_float (float_of_str e) vlon") simp_all
  obtain a where sel: "first (order_by_pk (filter_active tbl (req_user req) (today ck))) = Some a"
    using PunchOutView_post_none [OF k1 k2 la lo, of tbl ck] run dat
    by (cases "first (order_by_pk (filter_active tbl (req_user req) (today ck)))") auto
  obtain nearest d where fn: "find_nearest e user_lat user_lon = (nearest, d)"
    by (cases "find_nearest e user_lat user_lon") auto
  note some = PunchOutView_post_some [OF k1 k2 la lo sel fn]
  have rng: "\<not> fl_gt d (PUNCH_RADIUS e)"
  proof
    assume "fl_gt d (PUNCH_RADIUS e)"
    from some(1) [OF this] run dat show False
      by (cases nearest) auto
  qed
  from some(2) [OF rng refl] run dat have "att_id x = att_id a"
    by (cases nearest) auto
  with sel show ?thesis by blast
qed

section \<open>The latest row after a punch\<close>

lemma at_most_one: "length xs \<le> 1 \<Longrightarrow> x \<in> set xs \<Longrightarrow> y \<in> set xs \<Longrightarrow> x = y"
  by (cases xs) auto

lemma punch_in_then_latest:
  assumes day: "date_of (now ck) = today ck"
    and run: "PunchInView_post e ck tbl req = (tbl1, Inr r1)" and ok: "status_code r1 = 201"
  shows "\<exists>n. first (order_by_id_desc (filter_today tbl1 (req_user req) (today ck))) = Some n
            \<and> punch_in_time n = Some (now ck) \<and> punch_out_time n = None
            \<and> (filter_today tbl (req_user req) (today ck) = [] \<longrightarrow>
                  filter_active tbl1 (req_user req) (today ck) = [n])"
proof -
  let ?u = "req_user req" and ?d = "today ck"
  from punch_in_success_cases [OF run ok] show ?thesis
  proof (elim disjE exE conjE)
    fix new
    assume emp: "filter_today tbl ?u ?d = []" and t: "tbl1 = tbl @ [new]"
      and n: "att_id new = next_id tbl" "user new = ?u"
        "punch_in_time new = Some (now ck)" "punch_out_time new = None"
    have od: "on_day ?d new" using n(3) day by (simp add: on_day_def)
    have "first (order_by_id_desc (filter_today tbl1 ?u ?d)) = Some new"
      unfolding t by (rule latest_after_create [OF od n(2) n(1)])
    moreover have "filter_active tbl1 ?u ?d = [new]"
      using filter_active_Nil [OF emp] od n(2,4) unfolding t
      by (simp add: filter_active_def)
    ultimately show ?thesis using n(3,4) by blast
  next
    fix a a'
    assume sel: "first (order_by_id_desc (filter_today tbl ?u ?d)) = Some a"
      and t: "tbl1 = save tbl a'"
      and n: "att_id a' = att_id a" "user a' = user a"
        "punch_in_time a' = Some (now ck)" "punch_out_time a' = None"
    from latest_SomeD [OF sel] have mem: "a \<in> set (filter_today tbl ?u ?d)"
      and top: "\<forall>r\<in>set (filter_today tbl ?u ?d). att_id r \<le> att_id a" by auto
    from mem have ua: "user a = ?u" by (simp add: filter_today_def)
    have od: "on_day ?d a'" using n(3) day by (simp add: on_day_def)
    have "first (order_by_id_desc (filter_today tbl1 ?u ?d)) = Some a'"
      unfolding t using mem top n(1) _ od by (rule latest_after_save) (simp add: n(2) ua)
    moreover have "filter_today tbl ?u ?d \<noteq> []" using mem by auto
    ultimately show ?thesis using n(3,4) by blast
  qed
qed

lemma punch_out_then_latest:
  assumes lat: "first (order_by_id_desc (filter_today tbl1 (req_user req2) (today ck2))) = Some n"
    and opn: "punch_out_time n = None"
    and one: "length (filter_active tbl1 (req_user req2) (today ck2)) \<le> 1"
    and run: "PunchOutView_post e ck2 tbl1 req2 = (tbl2, Inr r2)" and ok: "status_code r2 = 200"
  shows "\<exists>m. first (order_by_id_desc (filter_today tbl2 (req_user req2) (today ck2))) = Some m
            \<and> punch_in_time m = punch_in_time n \<and> punch_out_time m = Some (now ck2)"
proof -
  let ?u = "req_user req2" and ?d = "today ck2"
  from punch_out_success_cases [OF run ok] obtain a a' where
    sel: "first (order_by_pk (filter_active tbl1 ?u ?d)) = Some a"
    and t: "tbl2 = save tbl1 a'"
    and n: "att_id a' = att_id a" "user a' = user a"
      "punch_in_time a' = punch_in_time a" "punch_out_time a' = Some (now ck2)"
    by blast
  from latest_SomeD [OF lat] have mem: "n \<in> set (filter_today tbl1 ?u ?d)"
    and top: "\<forall>r\<in>set (filter_today tbl1 ?u ?d). att_id r \<le> att_id n" by auto
  from mem opn have "n \<in> set (filter_active tbl1 ?u ?d)"
    by (simp add: filter_active_def filter_today_def)
  with oldest_SomeD(1) [OF sel] one have an: "a = n" by (blast intro: at_most_one)
  from mem have un: "user n = ?u" and od: "on_day ?d n" by (simp_all add: filter_today_def)
  have od': "on_day ?d a'" using od n(3) an by (simp add: on_day_def)
  have "first (order_by_id_desc (filter_today tbl2 ?u ?d)) = Some a'"
    unfolding t using mem top _ _ od'
    by (rule latest_after_save) (simp_all add: n an un)
  with n(3,4) an show ?thesis by blast
qed

section \<open>The example configuration, evaluated\<close>

lemma ex_near_lat: "req_data req_near ''latitude'' = Some (Num (Finite 0))"
  by (simp add: req_near_def)

lemma ex_near_lon: "req_data req_near ''longitude'' = Some (Str ''0'')"
  by (simp add: req_near_def)

lemma ex_far_lat: "req_data req_far ''latitude'' = Some (Num (Finite 0))"
  by (simp add: req_far_def)

lemma ex_far_lon: "req_data req_far ''longitude'' = Some (Str ''500'')"
  by (simp add: req_far_def)

lemma ex_float_num: "py_float (float_of_str ex_env) (Num x) = Inr x"
  by simp

lemma ex_float_0: "py_float (float_of_str ex_env) (Str ''0'') = Inr (Finite 0)"
  by (simp add: ex_env_def ex_float_of_str_def)

lemma ex_float_500: "py_float (float_of_str ex_env) (Str ''500'') = Inr (Finite 500)"
  by (simp add: ex_env_def ex_float_of_str_def)

lemma ex_nearest_near: "find_nearest ex_env (Finite 0) (Finite 0) = (Some branch_A, Finite 150)"
  by (simp add: find_nearest_def ex_env_def branch_A_def branch_B_def Let_def)

lemma ex_nearest_far: "find_nearest ex_env (Finite 0) (Finite 500) = (Some branch_A, Finite 650)"
  by (simp add: find_nearest_def ex_env_def branch_A_def branch_B_def Let_def)

lemma ex_in_range: "\<not> fl_gt (Finite 150) (PUNCH_RADIUS ex_env)"
  by (simp add: fl_gt_def ex_env_def)

lemma ex_out_of_range: "fl_gt (Finite 650) (PUNCH_RADIUS ex_env)"
  by (simp add: fl_gt_def ex_env_def)

lemma ex_round_150: "round2 (Finite 150) = Finite 150"
  by (simp add: round_half_even_def)

lemma ex_round_650: "round2 (Finite 650) = Finite 650"
  by (simp add: round_half_even_def)

lemma ex_oldest_active:
  "first (order_by_pk (filter_active [row_open 1, row_closed 2] (req_user req_near) (today ex_clock)))
     = Some (row_open 1)"
  by (simp add: first_def order_by_pk_def filter_active_def on_day_def date_of_def
        row_closed_def row_open_def req_near_def ex_clock_def)

lemma ex_latest_closed:
  "first (order_by_id_desc (filter_today [row_closed 1] (req_user req_near) (today ex_clock)))
     = Some (row_closed 1)"
  by (simp add: first_def order_by_id_desc_def filter_today_def on_day_def date_of_def
        row_closed_def req_near_def ex_clock_def)

lemma ex_dist_A: "calculate_distance ex_env (Finite 225) (Finite 0) (lat branch_A) (lon branch_A) = Finite 75"
  by (simp add: ex_env_def branch_A_def)

lemma ex_dist_B: "calculate_distance ex_env (Finite 225) (Finite 0) (lat branch_B) (lon branch_B) = Finite 75"
  by (simp add: ex_env_def branch_B_def)

lemma ex_in_empty:
  "PunchInView_post ex_env ex_clock [] req_near =
     ([row_fresh], Inr (resp_in ''Punch in successful at A'' row_fresh))"
  by (simp add: PunchInView_post_def req_near_def dict_get_def ex_env_def ex_float_of_str_def
        find_nearest_def branch_A_def branch_B_def Let_def fl_gt_def filter_today_def
        order_by_id_desc_def first_def create_def next_id_def round_half_even_def
        ex_clock_def row_fresh_def resp_in_def)

lemma ex_out_fresh:
  "PunchOutView_post ex_env ex_clock_later [row_fresh] req_near =
     ([row_done], Inr (resp_out row_done))"
  by (simp add: PunchOutView_post_def req_near_def dict_get_def ex_env_def ex_float_of_str_def
        find_nearest_def branch_A_def branch_B_def Let_def fl_gt_def filter_active_def
        order_by_pk_def first_def save_def round_half_even_def on_day_def date_of_def
        ex_clock_later_def row_fresh_def row_done_def resp_out_def)

lemma ex_in_two:
  "PunchInView_post ex_env ex_clock [row_open 1, row_closed 2] req_near =
     ([row_open 1, row_reopened], Inr (resp_in ''Punch in updated successfully at A'' row_reopened))"
  by (simp add: PunchInView_post_def req_near_def dict_get_def ex_env_def ex_float_of_str_def
        find_nearest_def branch_A_def branch_B_def Let_def fl_gt_def filter_today_def
        order_by_id_desc_def first_def save_def round_half_even_def on_day_def date_of_def
        ex_clock_def row_open_def row_closed_def row_reopened_def resp_in_def)

lemma ex_out_two:
  "PunchOutView_post ex_env ex_clock [row_open 1, row_closed 2] req_near =
     ([row_left, row_closed 2], Inr (resp_out row_left))"
  by (simp add: PunchOutView_post_def req_near_def dict_get_def ex_env_def ex_float_of_str_def
        find_nearest_def branch_A_def branch_B_def Let_def fl_gt_def filter_active_def
        order_by_pk_def first_def save_def round_half_even_def on_day_def date_of_def
        ex_clock_def row_open_def row_closed_def row_left_def resp_out_def)

lemma ex_filter_two:
  "filter_today [row_open 1, row_closed 2] 1 7 = [row_open 1, row_closed 2]"
  "filter_active [row_open 1, row_closed 2] 1 7 = [row_open 1]"
  by (simp_all add: filter_today_def filter_active_def on_day_def date_of_def
        row_open_def row_closed_def)

lemma ex_latest_two:
  "first (order_by_id_desc (filter_today [row_open 1, row_closed 2] 1 7)) = Some (row_closed 2)"
  by (simp add: filter_today_def on_day_def date_of_def order_by_id_desc_def first_def
        row_open_def row_closed_def)

lemma ex_ids: "att_id (row_open i) = i" "att_id (row_closed i) = i"
  "att_id row_left = 1" "att_id row_reopened = 2" "att_id row_fresh = 1"
  by (simp_all add: row_open_def row_closed_def row_left_def row_reopened_def row_fresh_def)

lemma ex_clocks: "today ex_clock = 7" "now ex_clock = (7, 100)"
  "today ex_clock_later = 7" "now ex_clock_later = (7, 200)" "req_user req_near = 1"
  by (simp_all add: ex_clock_def ex_clock_later_def req_near_def)

section \<open>The claims\<close>

subsection \<open>Missing and malformed coordinates\<close>

text \<open>
  C8. The claim: a punch-in or punch-out request whose coordinates are missing or
  malformed is rejected with a 400 and the table is left unchanged. Both views begin with
  a validation step that gives this 400 when a key is missing, as at the request without
  a body below. The step does not look at the values: at a request whose latitude is null,
  and at one whose latitude is the string \<open>abc\<close>, both keys present, the conversion by
  \<open>float\<close> that follows raises TypeError and ValueError, and the view ends with that
  exception in place of the 400 of the claim. The table is unchanged in all three cases.
\<close>

theorem C8_failing_input:
  "req_data req_empty ''latitude'' = None
   \<and> PunchInView_post ex_env ex_clock [row_open 1] req_empty =
        ([row_open 1], Inr \<lparr>status_code = 400, status = ''failed'',
                   message = ''latitude & longitude are required'',
                   branch = None, nearest_branch = None, distance = None, data = None\<rparr>)
   \<and> PunchOutView_post ex_env ex_clock [row_open 1] req_empty =
        ([row_open 1], Inr \<lparr>status_code = 400, status = ''failed'',
                   message = ''latitude & longitude are required'',
                   branch = None, nearest_branch = None, distance = None, data = None\<rparr>)
   \<and> req_data req_null ''latitude'' = Some Null
   \<and> req_data req_null ''longitude'' = Some (Num (Finite 0))
   \<and> PunchInView_post ex_env ex_clock [row_open 1] req_null = ([row_open 1], Inl TypeError)
   \<and> PunchOutView_post ex_env ex_clock [row_open 1] req_null = ([row_open 1], Inl TypeError)
   \<and> req_data req_text ''latitude'' = Some (Str ''abc'')
   \<and> req_data req_text ''longitude'' = Some (Num (Finite 0))
   \<and> PunchInView_post ex_env ex_clock [row_open 1] req_text = ([row_open 1], Inl ValueError)
   \<and> PunchOutView_post ex_env ex_clock [row_open 1] req_text = ([row_open 1], Inl ValueError)"
proof -
  have e: "req_data req_empty ''latitude'' = None"
    by (simp add: req_empty_def)
  have n1: "req_data req_null ''latitude'' = Some Null"
    and n2: "req_data req_null ''longitude'' = Some (Num (Finite 0))"
    by (simp_all add: req_null_def)
  have t1: "req_data req_text ''latitude'' = Some (Str ''abc'')"
    and t2: "req_data req_text ''longitude'' = Some (Num (Finite 0))"
    by (simp_all add: req_text_def)
  have fn: "py_float (float_of_str ex_env) Null = Inl TypeError"
    by simp
  have ft: "py_float (float_of_str ex_env) (Str ''abc'') = Inl ValueError"
    by (simp add: ex_env_def ex_float_of_str_def)
  from e have "req_data req_empty ''latitude'' = None \<or> req_data req_empty ''longitude'' = None"
    by simp
  note missing = PunchInView_post_missing [OF this, of ex_env ex_clock "[row_open 1]"]
    PunchOutView_post_missing [OF this, of ex_env ex_clock "[row_open 1]"]
  note isnull = PunchInView_post_raises(1) [OF n1 n2 fn, of ex_clock "[row_open 1]"]
    PunchOutView_post_raises(1) [OF n1 n2 fn, of ex_clock "[row_open 1]"]
  note nonnum = PunchInView_post_raises(1) [OF t1 t2 ft, of ex_clock "[row_open 1]"]
    PunchOutView_post_raises(1) [OF t1 t2 ft, of ex_clock "[row_open 1]"]
  from e missing n1 n2 isnull t1 t2 nonnum show ?thesis by blast
qed

subsection \<open>Punch-out without an open row\<close>

text \<open>
  C4, as amended. For every punch-out request whose two coordinates are present and
  convert to floats, when the user has no row of today with a null punch-out time the view
  answers 400 with the message that the user has not punched in today and leaves the table
  unchanged, whatever the coordinates are and whatever the branches, the radius and the
  distance function are: the row is looked for before the branches are.
\<close>

theorem C4_not_punched_in:
  assumes "req_data req ''latitude'' = Some vlat"
    and "req_data req ''longitude'' = Some vlon"
    and "py_float (float_of_str e) vlat = Inr user_lat"
    and "py_float (float_of_str e) vlon = Inr user_lon"
    and "filter_active tbl (req_user req) (today ck) = []"
  shows "PunchOutView_post (e\<lparr>BRANCHES := bs, PUNCH_RADIUS := radius, calculate_distance := f\<rparr>) ck tbl req =
           (tbl, Inr \<lparr>status_code = 400, status = ''failed'',
                      message = ''You have not punched in today'',
                      branch = None, nearest_branch = None, distance = None, data = None\<rparr>)"
  using assms by (simp add: PunchOutView_post_def dict_get_def order_by_pk_def first_def)

text \<open>C4 at a request from far away, with no branches at all and a radius that is NaN.\<close>

theorem C4_not_punched_in_witness:
  "req_data req_far ''latitude'' = Some (Num (Finite 0))
   \<and> req_data req_far ''longitude'' = Some (Str ''500'')
   \<and> py_float (float_of_str ex_env) (Num (Finite 0)) = Inr (Finite 0)
   \<and> py_float (float_of_str ex_env) (Str ''500'') = Inr (Finite 500)
   \<and> filter_active [row_closed 1] (req_user req_far) (today ex_clock) = []
   \<and> PunchOutView_post (ex_env\<lparr>BRANCHES := [], PUNCH_RADIUS := NaN, calculate_distance := (\<lambda>a b c d. PInf)\<rparr>)
        ex_clock [row_closed 1] req_far =
           ([row_closed 1], Inr \<lparr>status_code = 400, status = ''failed'',
                      message = ''You have not punched in today'',
                      branch = None, nearest_branch = None, distance = None, data = None\<rparr>)"
proof -
  have h: "filter_active [row_closed 1] (req_user req_far) (today ex_clock) = []"
    by (simp add: filter_active_def row_closed_def)
  from C4_not_punched_in [OF ex_far_lat ex_far_lon ex_float_num ex_float_500 h,
      where bs = "[]" and radius = NaN and f = "\<lambda>a b c d. PInf"]
    ex_far_lat ex_far_lon ex_float_num [of "Finite 0"] ex_float_500 h
  show ?thesis by simp
qed

text \<open>
  C4 as it was stated fails: with no open row, a request without coordinates is answered
  with the message that they are required, and one with a null latitude raises TypeError;
  the coordinates are looked at before the row is.
\<close>

theorem C4_counterexample:
  "filter_active [] (req_user req_empty) (today ex_clock) = []
   \<and> PunchOutView_post ex_env ex_clock [] req_empty =
        ([], Inr \<lparr>status_code = 400, status = ''failed'',
                   message = ''latitude & longitude are required'',
                   branch = None, nearest_branch = None, distance = None, data = None\<rparr>)
   \<and> filter_active [] (req_user req_null) (today ex_clock) = []
   \<and> PunchOutView_post ex_env ex_clock [] req_null = ([], Inl TypeError)"
  by (simp add: PunchOutView_post_def req_empty_def req_null_def dict_get_def filter_active_def)

subsection \<open>Out of range\<close>

text \<open>
  C1, as amended. Take a request whose two coordinates are present and convert to floats,
  and let the loop over the branches find the nearest branch \<open>b\<close> at distance \<open>d\<close>.
  Punch-in answers with the out-of-range rejection, carrying the name of \<open>b\<close> and the
  rounded \<open>d\<close>, and leaves the table unchanged when \<open>d\<close> is strictly greater than
  \<open>PUNCH_RADIUS\<close>, and gives no out-of-range rejection otherwise. Punch-out does the same
  provided the user has an open row of today. A distance equal to the radius is in range.
\<close>

theorem C1_out_of_range:
  assumes "req_data req ''latitude'' = Some vlat"
    and "req_data req ''longitude'' = Some vlon"
    and "py_float (float_of_str e) vlat = Inr user_lat"
    and "py_float (float_of_str e) vlon = Inr user_lon"
    and "find_nearest e user_lat user_lon = (Some b, d)"
  shows "(fl_gt d (PUNCH_RADIUS e) \<longrightarrow>
            PunchInView_post e ck tbl req =
              (tbl, Inr \<lparr>status_code = 400, status = ''failed'',
                         message = ''You are out of range'',
                         branch = None, nearest_branch = Some (name b),
                         distance = Some (round2 d), data = None\<rparr>))
       \<and> (\<not> fl_gt d (PUNCH_RADIUS e) \<longrightarrow>
            (\<forall>r. snd (PunchInView_post e ck tbl req) = Inr r \<longrightarrow> \<not> OutOfRangeError r))
       \<and> (filter_active tbl (req_user req) (today ck) \<noteq> [] \<and> fl_gt d (PUNCH_RADIUS e) \<longrightarrow>
            PunchOutView_post e ck tbl req =
              (tbl, Inr \<lparr>status_code = 400, status = ''failed'',
                         message = ''You are out of range for '' @ name b,
                         branch = Some (name b), nearest_branch = None,
                         distance = Some (round2 d), data = None\<rparr>))
       \<and> (\<not> fl_gt d (PUNCH_RADIUS e) \<longrightarrow>
            (\<forall>r. snd (PunchOutView_post e ck tbl req) = Inr r \<longrightarrow> \<not> OutOfRangeError r))
       \<and> (d = PUNCH_RADIUS e \<longrightarrow> \<not> fl_gt d (PUNCH_RADIUS e))
       \<and> (\<forall>n x. OutOfRangeError \<lparr>status_code = 400, status = ''failed'',
                         message = ''You are out of range'',
                         branch = None, nearest_branch = Some n,
                         distance = Some x, data = None\<rparr>
               \<and> OutOfRangeError \<lparr>status_code = 400, status = ''failed'',
                         message = ''You are out of range for '' @ n,
                         branch = Some n, nearest_branch = None,
                         distance = Some x, data = None\<rparr>)"
proof -
  have in1: "fl_gt d (PUNCH_RADIUS e) \<longrightarrow>
            PunchInView_post e ck tbl req =
              (tbl, Inr \<lparr>status_code = 400, status = ''failed'',
                         message = ''You are out of range'',
                         branch = None, nearest_branch = Some (name b),
                         distance = Some (round2 d), data = None\<rparr>)"
    using assms by (simp add: PunchInView_post_def dict_get_def)
  have in2: "\<not> fl_gt d (PUNCH_RADIUS e) \<longrightarrow>
            (\<forall>r. snd (PunchInView_post e ck tbl req) = Inr r \<longrightarrow> \<not> OutOfRangeError r)"
    using assms
    by (auto simp: PunchInView_post_def dict_get_def OutOfRangeError_def create_def Let_def
          split: option.splits)
  have out1: "filter_active tbl (req_user req) (today ck) \<noteq> [] \<and> fl_gt d (PUNCH_RADIUS e) \<longrightarrow>
            PunchOutView_post e ck tbl req =
              (tbl, Inr \<lparr>status_code = 400, status = ''failed'',
                         message = ''You are out of range for '' @ name b,
                         branch = Some (name b), nearest_branch = None,
                         distance = Some (round2 d), data = None\<rparr>)"
    using assms
    by (auto simp: PunchOutView_post_def dict_get_def oldest_None split: option.splits)
  have out2: "\<not> fl_gt d (PUNCH_RADIUS e) \<longrightarrow>
            (\<forall>r. snd (PunchOutView_post e ck tbl req) = Inr r \<longrightarrow> \<not> OutOfRangeError r)"
    using assms
    by (auto simp: PunchOutView_post_def dict_get_def OutOfRangeError_def Let_def
          split: option.splits)
  have eq: "d = PUNCH_RADIUS e \<longrightarrow> \<not> fl_gt d (PUNCH_RADIUS e)"
    by (simp add: fl_gt_irrefl)
  have cls: "\<forall>n x. OutOfRangeError \<lparr>status_code = 400, status = ''failed'',
                         message = ''You are out of range'',
                         branch = None, nearest_branch = Some n,
                         distance = Some x, data = None\<rparr>
               \<and> OutOfRangeError \<lparr>status_code = 400, status = ''failed'',
                         message = ''You are out of range for '' @ n,
                         branch = Some n, nearest_branch = None,
                         distance = Some x, data = None\<rparr>"
    by (simp add: OutOfRangeError_def)
  from in1 in2 out1 out2 eq cls show ?thesis by blast
qed

text \<open>C1 at a request from 650 away, on a table with an open row of today.\<close>

theorem C1_out_of_range_witness:
  "req_data req_far ''latitude'' = Some (Num (Finite 0))
   \<and> req_data req_far ''longitude'' = Some (Str ''500'')
   \<and> py_float (float_of_str ex_env) (Num (Finite 0)) = Inr (Finite 0)
   \<and> py_float (float_of_str ex_env) (Str ''500'') = Inr (Finite 500)
   \<and> find_nearest ex_env (Finite 0) (Finite 500) = (Some branch_A, Finite 650)
   \<and> fl_gt (Finite 650) (PUNCH_RADIUS ex_env)
   \<and> filter_active [row_open 1] (req_user req_far) (today ex_clock) \<noteq> []
   \<and> PunchInView_post ex_env ex_clock [row_open 1] req_far =
        ([row_open 1], Inr \<lparr>status_code = 400, status = ''failed'',
                         message = ''You are out of range'',
                         branch = None, nearest_branch = Some ''A'',
                         distance = Some (Finite 650), data = None\<rparr>)
   \<and> PunchOutView_post ex_env ex_clock [row_open 1] req_far =
        ([row_open 1], Inr \<lparr>status_code = 400, status = ''failed'',
                         message = ''You are out of range for A'',
                         branch = Some ''A'', nearest_branch = None,
                         distance = Some (Finite 650), data = None\<rparr>)"
proof -
  have h: "filter_active [row_open 1] (req_user req_far) (today ex_clock) \<noteq> []"
    by (simp add: filter_active_def row_open_def req_far_def ex_clock_def on_day_def date_of_def)
  from C1_out_of_range [OF ex_far_lat ex_far_lon ex_float_num ex_float_500 ex_nearest_far,
      where ck = ex_clock and tbl = "[row_open 1]"]
    h ex_out_of_range ex_far_lat ex_far_lon ex_float_num [of "Finite 0"] ex_float_500
    ex_nearest_far ex_round_650
  show ?thesis by (simp add: branch_A_def)
qed

text \<open>
  C1 as it was stated fails for punch-out: from 650 away, with radius 200, a user without
  an open row is told that he has not punched in; the rejection is not the out-of-range one.
\<close>

theorem C1_counterexample:
  "req_data req_far ''latitude'' = Some (Num (Finite 0))
   \<and> req_data req_far ''longitude'' = Some (Str ''500'')
   \<and> find_nearest ex_env (Finite 0) (Finite 500) = (Some branch_A, Finite 650)
   \<and> fl_gt (Finite 650) (PUNCH_RADIUS ex_env)
   \<and> PunchOutView_post ex_env ex_clock [] req_far =
        ([], Inr \<lparr>status_code = 400, status = ''failed'',
                   message = ''You have not punched in today'',
                   branch = None, nearest_branch = None, distance = None, data = None\<rparr>)
   \<and> \<not> OutOfRangeError \<lparr>status_code = 400, status = ''failed'',
                   message = ''You have not punched in today'',
                   branch = None, nearest_branch = None, distance = None, data = None\<rparr>"
proof -
  have v: "PunchOutView_post ex_env ex_clock [] req_far =
        ([], Inr \<lparr>status_code = 400, status = ''failed'',
                   message = ''You have not punched in today'',
                   branch = None, nearest_branch = None, distance = None, data = None\<rparr>)"
    by (simp add: PunchOutView_post_def req_far_def dict_get_def ex_env_def ex_float_of_str_def
          filter_active_def order_by_pk_def first_def)
  have n: "\<not> OutOfRangeError \<lparr>status_code = 400, status = ''failed'',
                   message = ''You have not punched in today'',
                   branch = None, nearest_branch = None, distance = None, data = None\<rparr>"
    by (simp add: OutOfRangeError_def)
  from v n ex_far_lat ex_far_lon ex_nearest_far ex_out_of_range show ?thesis
    by blast
qed

subsection \<open>Punch-in while punched in\<close>

text \<open>
  C3. For every punch-in request whose coordinates are present and convert to floats and
  are within the radius (the distance the loop ends with is not greater than
  \<open>PUNCH_RADIUS\<close>), when today's latest row of the user has a null punch-out time the view
  answers 400 with the message that the user is already punched in, returns that row in
  the response, and leaves the table unchanged.
\<close>

theorem C3_already_punched_in:
  assumes "req_data req ''latitude'' = Some vlat"
    and "req_data req ''longitude'' = Some vlon"
    and "py_float (float_of_str e) vlat = Inr user_lat"
    and "py_float (float_of_str e) vlon = Inr user_lon"
    and "find_nearest e user_lat user_lon = (nearest, d)"
    and "\<not> fl_gt d (PUNCH_RADIUS e)"
    and "first (order_by_id_desc (filter_today tbl (req_user req) (today ck))) = Some a"
    and "punch_out_time a = None"
  shows "PunchInView_post e ck tbl req =
           (tbl, Inr \<lparr>status_code = 400, status = ''failed'',
                      message = ''You are already punched in today'',
                      branch = None, nearest_branch = None, distance = None,
                      data = Some a\<rparr>)"
  using assms by (simp add: PunchInView_post_def dict_get_def)

text \<open>C3 on a table whose latest row of today, under key 2, is open.\<close>

theorem C3_already_punched_in_witness:
  "req_data req_near ''latitude'' = Some (Num (Finite 0))
   \<and> req_data req_near ''longitude'' = Some (Str ''0'')
   \<and> py_float (float_of_str ex_env) (Num (Finite 0)) = Inr (Finite 0)
   \<and> py_float (float_of_str ex_env) (Str ''0'') = Inr (Finite 0)
   \<and> find_nearest ex_env (Finite 0) (Finite 0) = (Some branch_A, Finite 150)
   \<and> \<not> fl_gt (Finite 150) (PUNCH_RADIUS ex_env)
   \<and> first (order_by_id_desc (filter_today [row_closed 1, row_open 2] (req_user req_near) (today ex_clock)))
       = Some (row_open 2)
   \<and> punch_out_time (row_open 2) = None
   \<and> PunchInView_post ex_env ex_clock [row_closed 1, row_open 2] req_near =
           ([row_closed 1, row_open 2], Inr \<lparr>status_code = 400, status = ''failed'',
                      message = ''You are already punched in today'',
                      branch = None, nearest_branch = None, distance = None,
                      data = Some (row_open 2)\<rparr>)"
proof -
  have h7: "first (order_by_id_desc (filter_today [row_closed 1, row_open 2] (req_user req_near) (today ex_clock)))
       = Some (row_open 2)"
    by (simp add: first_def order_by_id_desc_def filter_today_def on_day_def date_of_def
          row_closed_def row_open_def req_near_def ex_clock_def)
  have h8: "punch_out_time (row_open 2) = None"
    by (simp add: row_open_def)
  from C3_already_punched_in [OF ex_near_lat ex_near_lon ex_float_num ex_float_0 ex_nearest_near
      ex_in_range h7 h8]
    ex_near_lat ex_near_lon ex_float_num [of "Finite 0"] ex_float_0 ex_nearest_near ex_in_range h7 h8
  show ?thesis by simp
qed

subsection \<open>Successful punch-out\<close>

text \<open>
  C5. For a punch-out request whose coordinates are present, convert to floats and are
  within the radius of the nearest branch \<open>b\<close>, when the user has an open row \<open>a\<close> of
  today the view stores \<open>a\<close> with punch-out time \<open>now\<close> and the given coordinates as
  punch-out coordinates, and answers 200 with the name of \<open>b\<close>, the rounded distance and
  the stored row. The stored row has the punch-in time, the punch-in coordinates, the user
  and the key of \<open>a\<close>; the table keeps its keys, and every row under another key is
  untouched.
\<close>

theorem C5_punch_out_success:
  assumes "req_data req ''latitude'' = Some vlat"
    and "req_data req ''longitude'' = Some vlon"
    and "py_float (float_of_str e) vlat = Inr user_lat"
    and "py_float (float_of_str e) vlon = Inr user_lon"
    and "first (order_by_pk (filter_active tbl (req_user req) (today ck))) = Some a"
    and "find_nearest e user_lat user_lon = (Some b, d)"
    and "\<not> fl_gt d (PUNCH_RADIUS e)"
    and "a' = a\<lparr>punch_out_time := Some (now ck), punch_out_lat := Some user_lat,
                 punch_out_lon := Some user_lon\<rparr>"
  shows "PunchOutView_post e ck tbl req =
           (save tbl a', Inr \<lparr>status_code = 200, status = ''success'',
                              message = ''Punch out successful'',
                              branch = Some (name b), nearest_branch = None,
                              distance = Some (round2 d), data = Some a'\<rparr>)
       \<and> a \<in> set tbl \<and> user a = req_user req \<and> punch_out_time a = None
       \<and> punch_out_time a' = Some (now ck)
       \<and> punch_out_lat a' = Some user_lat \<and> punch_out_lon a' = Some user_lon
       \<and> punch_in_time a' = punch_in_time a
       \<and> punch_in_lat a' = punch_in_lat a \<and> punch_in_lon a' = punch_in_lon a
       \<and> user a' = user a \<and> att_id a' = att_id a
       \<and> map att_id (save tbl a') = map att_id tbl
       \<and> (\<forall>i<length tbl. save tbl a' ! i = (if att_id (tbl ! i) = att_id a then a' else tbl ! i))"
proof -
  have "PunchOutView_post e ck tbl req =
           (save tbl a', Inr \<lparr>status_code = 200, status = ''success'',
                              message = ''Punch out successful'',
                              branch = Some (name b), nearest_branch = None,
                              distance = Some (round2 d), data = Some a'\<rparr>)"
    using assms by (simp add: PunchOutView_post_def dict_get_def Let_def)
  moreover from oldest_SomeD(1) [OF assms(5)]
  have "a \<in> set tbl \<and> user a = req_user req \<and> punch_out_time a = None"
    by (simp add: filter_active_def)
  moreover have "punch_out_time a' = Some (now ck)
       \<and> punch_out_lat a' = Some user_lat \<and> punch_out_lon a' = Some user_lon
       \<and> punch_in_time a' = punch_in_time a
       \<and> punch_in_lat a' = punch_in_lat a \<and> punch_in_lon a' = punch_in_lon a
       \<and> user a' = user a \<and> att_id a' = att_id a"
    by (simp add: assms(8))
  moreover have "map att_id (save tbl a') = map att_id tbl"
    by (simp add: save_def assms(8) comp_def cong: map_cong)
  moreover have "\<forall>i<length tbl. save tbl a' ! i = (if att_id (tbl ! i) = att_id a then a' else tbl ! i)"
    by (simp add: save_def assms(8))
  ultimately show ?thesis by blast
qed

text \<open>C5 on a table with an open row under key 1 and a closed one under key 2.\<close>

theorem C5_punch_out_success_witness:
  "req_data req_near ''latitude'' = Some (Num (Finite 0))
   \<and> req_data req_near ''longitude'' = Some (Str ''0'')
   \<and> py_float (float_of_str ex_env) (Num (Finite 0)) = Inr (Finite 0)
   \<and> py_float (float_of_str ex_env) (Str ''0'') = Inr (Finite 0)
   \<and> first (order_by_pk (filter_active [row_open 1, row_closed 2] (req_user req_near) (today ex_clock)))
       = Some (row_open 1)
   \<and> find_nearest ex_env (Finite 0) (Finite 0) = (Some branch_A, Finite 150)
   \<and> \<not> fl_gt (Finite 150) (PUNCH_RADIUS ex_env)
   \<and> PunchOutView_post ex_env ex_clock [row_open 1, row_closed 2] req_near =
        ([(row_open 1)\<lparr>punch_out_time := Some (7, 100), punch_out_lat := Some (Finite 0),
                        punch_out_lon := Some (Finite 0)\<rparr>, row_closed 2],
         Inr \<lparr>status_code = 200, status = ''success'',
               message = ''Punch out successful'',
               branch = Some ''A'', nearest_branch = None,
               distance = Some (Finite 150),
               data = Some ((row_open 1)\<lparr>punch_out_time := Some (7, 100),
                        punch_out_lat := Some (Finite 0), punch_out_lon := Some (Finite 0)\<rparr>)\<rparr>)
   \<and> punch_in_time ((row_open 1)\<lparr>punch_out_time := Some (7, 100), punch_out_lat := Some (Finite 0),
                        punch_out_lon := Some (Finite 0)\<rparr>) = punch_in_time (row_open 1)"
proof -
  have s: "save [row_open 1, row_closed 2]
             ((row_open 1)\<lparr>punch_out_time := Some (7, 100), punch_out_lat := Some (Finite 0),
                        punch_out_lon := Some (Finite 0)\<rparr>)
           = [(row_open 1)\<lparr>punch_out_time := Some (7, 100), punch_out_lat := Some (Finite 0),
                        punch_out_lon := Some (Finite 0)\<rparr>, row_closed 2]"
    by (simp add: save_def row_open_def row_closed_def)
  have n: "now ex_clock = (7, 100)" by (simp add: ex_clock_def)
  from C5_punch_out_success [OF ex_near_lat ex_near_lon ex_float_num ex_float_0 ex_oldest_active
      ex_nearest_near ex_in_range refl]
    ex_near_lat ex_near_lon ex_float_num [of "Finite 0"] ex_float_0 ex_oldest_active
    ex_nearest_near ex_in_range ex_round_150 s n
  show ?thesis by (simp add: branch_A_def)
qed

subsection \<open>Successful punch-in\<close>

text \<open>
  C2. Take a punch-in request whose coordinates are present, convert to floats and are
  within the radius of the nearest branch \<open>b\<close>. When the user has no row of today, the
  view appends one new row, under a key above every key of the table, with punch-in time
  \<open>now\<close>, the given coordinates and null punch-out fields, and answers 201 with a message
  that starts with \<open>Punch in successful\<close>. When today's latest row of the user has a
  punch-out time, the view stores that row with punch-in time \<open>now\<close>, the given
  coordinates and null punch-out fields, under its old key and for its old user, and
  answers 201 with a message that starts with \<open>Punch in updated successfully\<close>; the
  table keeps its keys (no row is added), and every row under another key is untouched.
  Both answers carry the name of \<open>b\<close> and the rounded distance.
\<close>

theorem C2_punch_in_success:
  assumes "req_data req ''latitude'' = Some vlat"
    and "req_data req ''longitude'' = Some vlon"
    and "py_float (float_of_str e) vlat = Inr user_lat"
    and "py_float (float_of_str e) vlon = Inr user_lon"
    and "find_nearest e user_lat user_lon = (Some b, d)"
    and "\<not> fl_gt d (PUNCH_RADIUS e)"
    and "new = \<lparr>att_id = next_id tbl, user = req_user req, punch_in_time = Some (now ck),
                 punch_in_lat = Some user_lat, punch_in_lon = Some user_lon,
                 punch_out_time = None, punch_out_lat = None, punch_out_lon = None\<rparr>"
    and "upd = (\<lambda>a. a\<lparr>punch_in_time := Some (now ck), punch_in_lat := Some user_lat,
                        punch_in_lon := Some user_lon, punch_out_time := None,
                        punch_out_lat := None, punch_out_lon := None\<rparr>)"
  shows "(filter_today tbl (req_user req) (today ck) = [] \<longrightarrow>
            PunchInView_post e ck tbl req =
              (tbl @ [new], Inr \<lparr>status_code = 201, status = ''success'',
                                 message = ''Punch in successful'' @ '' at '' @ name b,
                                 branch = Some (name b), nearest_branch = None,
                                 distance = Some (round2 d), data = Some new\<rparr>)
            \<and> (\<forall>r\<in>set tbl. att_id r < att_id new))
       \<and> (\<forall>a t. first (order_by_id_desc (filter_today tbl (req_user req) (today ck))) = Some a
                 \<and> punch_out_time a = Some t \<longrightarrow>
            PunchInView_post e ck tbl req =
              (save tbl (upd a), Inr \<lparr>status_code = 201, status = ''success'',
                                 message = ''Punch in updated successfully'' @ '' at '' @ name b,
                                 branch = Some (name b), nearest_branch = None,
                                 distance = Some (round2 d), data = Some (upd a)\<rparr>)
            \<and> a \<in> set tbl \<and> att_id (upd a) = att_id a \<and> user (upd a) = user a
            \<and> map att_id (save tbl (upd a)) = map att_id tbl
            \<and> (\<forall>i<length tbl. save tbl (upd a) ! i =
                   (if att_id (tbl ! i) = att_id a then upd a else tbl ! i)))"
proof -
  have none: "PunchInView_post e ck tbl req =
              (tbl @ [new], Inr \<lparr>status_code = 201, status = ''success'',
                                 message = ''Punch in successful'' @ '' at '' @ name b,
                                 branch = Some (name b), nearest_branch = None,
                                 distance = Some (round2 d), data = Some new\<rparr>)"
    if "filter_today tbl (req_user req) (today ck) = []"
    using assms that
    by (simp add: PunchInView_post_def dict_get_def create_def Let_def first_def
          order_by_id_desc_def)
  have fresh: "\<forall>r\<in>set tbl. att_id r < att_id new"
    by (simp add: assms(7) next_id_above)
  have some: "PunchInView_post e ck tbl req =
              (save tbl (upd a), Inr \<lparr>status_code = 201, status = ''success'',
                                 message = ''Punch in updated successfully'' @ '' at '' @ name b,
                                 branch = Some (name b), nearest_branch = None,
                                 distance = Some (round2 d), data = Some (upd a)\<rparr>)"
    if "first (order_by_id_desc (filter_today tbl (req_user req) (today ck))) = Some a"
      and "punch_out_time a = Some t" for a t
    using assms(1-6) that by (simp add: PunchInView_post_def dict_get_def Let_def assms(8))
  have mem: "a \<in> set tbl"
    if "first (order_by_id_desc (filter_today tbl (req_user req) (today ck))) = Some a" for a
    using latest_SomeD(1) [OF that] by (simp add: filter_today_def)
  have keep: "att_id (upd a) = att_id a \<and> user (upd a) = user a" for a
    by (simp add: assms(8))
  have ids: "map att_id (save tbl (upd a)) = map att_id tbl" for a
    by (simp add: save_def assms(8) comp_def cong: map_cong)
  have rows: "\<forall>i<length tbl. save tbl (upd a) ! i =
                   (if att_id (tbl ! i) = att_id a then upd a else tbl ! i)" for a
    by (simp add: save_def assms(8))
  from none fresh some mem keep ids rows show ?thesis by blast
qed

text \<open>C2 on the empty table, and on a table whose only row is closed.\<close>

theorem C2_punch_in_success_witness:
  "req_data req_near ''latitude'' = Some (Num (Finite 0))
   \<and> req_data req_near ''longitude'' = Some (Str ''0'')
   \<and> py_float (float_of_str ex_env) (Num (Finite 0)) = Inr (Finite 0)
   \<and> py_float (float_of_str ex_env) (Str ''0'') = Inr (Finite 0)
   \<and> find_nearest ex_env (Finite 0) (Finite 0) = (Some branch_A, Finite 150)
   \<and> \<not> fl_gt (Finite 150) (PUNCH_RADIUS ex_env)
   \<and> filter_today [] (req_user req_near) (today ex_clock) = []
   \<and> PunchInView_post ex_env ex_clock [] req_near =
        ([\<lparr>att_id = 1, user = 1, punch_in_time = Some (7, 100),
            punch_in_lat = Some (Finite 0), punch_in_lon = Some (Finite 0),
            punch_out_time = None, punch_out_lat = None, punch_out_lon = None\<rparr>],
         Inr \<lparr>status_code = 201, status = ''success'',
               message = ''Punch in successful at A'',
               branch = Some ''A'', nearest_branch = None,
               distance = Some (Finite 150),
               data = Some \<lparr>att_id = 1, user = 1, punch_in_time = Some (7, 100),
                 punch_in_lat = Some (Finite 0), punch_in_lon = Some (Finite 0),
                 punch_out_time = None, punch_out_lat = None, punch_out_lon = None\<rparr>\<rparr>)
   \<and> first (order_by_id_desc (filter_today [row_closed 1] (req_user req_near) (today ex_clock)))
       = Some (row_closed 1)
   \<and> punch_out_time (row_closed 1) = Some (7, 50)
   \<and> PunchInView_post ex_env ex_clock [row_closed 1] req_near =
        ([\<lparr>att_id = 1, user = 1, punch_in_time = Some (7, 100),
            punch_in_lat = Some (Finite 0), punch_in_lon = Some (Finite 0),
            punch_out_time = None, punch_out_lat = None, punch_out_lon = None\<rparr>],
         Inr \<lparr>status_code = 201, status = ''success'',
               message = ''Punch in updated successfully at A'',
               branch = Some ''A'', nearest_branch = None,
               distance = Some (Finite 150),
               data = Some \<lparr>att_id = 1, user = 1, punch_in_time = Some (7, 100),
                 punch_in_lat = Some (Finite 0), punch_in_lon = Some (Finite 0),
                 punch_out_time = None, punch_out_lat = None, punch_out_lon = None\<rparr>\<rparr>)"
proof -
  have e: "filter_today [] (req_user req_near) (today ex_clock) = []"
    by (simp add: filter_today_def)
  have t: "punch_out_time (row_closed 1) = Some (7, 50)"
    by (simp add: row_closed_def)
  have n: "now ex_clock = (7, 100)" "req_user req_near = 1"
    by (simp_all add: ex_clock_def req_near_def)
  have i: "next_id [] = 1" by (simp add: next_id_def)
  from C2_punch_in_success [OF ex_near_lat ex_near_lon ex_float_num ex_float_0 ex_nearest_near
      ex_in_range refl refl, where tbl = "[]" and ck = ex_clock]
  have a: "PunchInView_post ex_env ex_clock [] req_near =
        ([\<lparr>att_id = 1, user = 1, punch_in_time = Some (7, 100),
            punch_in_lat = Some (Finite 0), punch_in_lon = Some (Finite 0),
            punch_out_time = None, punch_out_lat = None, punch_out_lon = None\<rparr>],
         Inr \<lparr>status_code = 201, status = ''success'',
               message = ''Punch in successful at A'',
               branch = Some ''A'', nearest_branch = None,
               distance = Some (Finite 150),
               data = Some \<lparr>att_id = 1, user = 1, punch_in_time = Some (7, 100),
                 punch_in_lat = Some (Finite 0), punch_in_lon = Some (Finite 0),
                 punch_out_time = None, punch_out_lat = None, punch_out_lon = None\<rparr>\<rparr>)"
    by (simp add: n i filter_today_def round_half_even_def branch_A_def)
  from C2_punch_in_success [OF ex_near_lat ex_near_lon ex_float_num ex_float_0 ex_nearest_near
      ex_in_range refl refl, where tbl = "[row_closed 1]" and ck = ex_clock]
    ex_latest_closed t
  have b: "PunchInView_post ex_env ex_clock [row_closed 1] req_near =
        ([\<lparr>att_id = 1, user = 1, punch_in_time = Some (7, 100),
            punch_in_lat = Some (Finite 0), punch_in_lon = Some (Finite 0),
            punch_out_time = None, punch_out_lat = None, punch_out_lon = None\<rparr>],
         Inr \<lparr>status_code = 201, status = ''success'',
               message = ''Punch in updated successfully at A'',
               branch = Some ''A'', nearest_branch = None,
               distance = Some (Finite 150),
               data = Some \<lparr>att_id = 1, user = 1, punch_in_time = Some (7, 100),
                 punch_in_lat = Some (Finite 0), punch_in_lon = Some (Finite 0),
                 punch_out_time = None, punch_out_lat = None, punch_out_lon = None\<rparr>\<rparr>)"
    by (simp add: n save_def row_closed_def round_half_even_def branch_A_def)
  from a b e t ex_latest_closed ex_near_lat ex_near_lon ex_float_num [of "Finite 0"] ex_float_0
    ex_nearest_near ex_in_range
  show ?thesis by blast
qed

subsection \<open>The nearest branch\<close>

text \<open>
  C6. For every coordinate and every non-empty list of branches whose distances to the
  coordinate are finite numbers, the loop of the punch views returns a branch of the list
  with its distance, this distance is less than or equal to the distance of every branch
  of the list, and every branch that stands before it in the list is strictly farther:
  among the branches at the least distance the first one is returned. The result is a
  function of the coordinate, the list and the distance function.
\<close>

theorem C6_nearest_branch:
  assumes "BRANCHES e \<noteq> []"
    and "\<forall>q\<in>set (BRANCHES e). \<exists>r. calculate_distance e x y (lat q) (lon q) = Finite r"
  shows "(\<exists>pre b post. BRANCHES e = pre @ b # post
       \<and> find_nearest e x y = (Some b, calculate_distance e x y (lat b) (lon b))
       \<and> (\<forall>q\<in>set (BRANCHES e).
             fl_le (calculate_distance e x y (lat b) (lon b)) (calculate_distance e x y (lat q) (lon q)))
       \<and> (\<forall>p\<in>set pre.
             fl_lt (calculate_distance e x y (lat b) (lon b)) (calculate_distance e x y (lat p) (lon p))))
       \<and> (\<forall>e'. BRANCHES e' = BRANCHES e \<and> calculate_distance e' = calculate_distance e \<longrightarrow>
             find_nearest e' x y = find_nearest e x y)"
proof -
  from find_nearest_first_least [OF assms]
  have least: "\<exists>pre b post. BRANCHES e = pre @ b # post
       \<and> find_nearest e x y = (Some b, calculate_distance e x y (lat b) (lon b))
       \<and> (\<forall>q\<in>set (BRANCHES e).
             fl_le (calculate_distance e x y (lat b) (lon b)) (calculate_distance e x y (lat q) (lon q)))
       \<and> (\<forall>p\<in>set pre.
             fl_lt (calculate_distance e x y (lat b) (lon b)) (calculate_distance e x y (lat p) (lon p)))" .
  have same: "find_nearest e' x y = find_nearest e x y"
    if "BRANCHES e' = BRANCHES e" and "calculate_distance e' = calculate_distance e" for e'
    using that by (rule find_nearest_cong)
  from least same show ?thesis by blast
qed

text \<open>C6 at a point that is 75 from both example branches: the first one is returned.\<close>

theorem C6_nearest_branch_witness:
  "BRANCHES ex_env = [branch_A, branch_B]
   \<and> calculate_distance ex_env (Finite 225) (Finite 0) (lat branch_A) (lon branch_A) = Finite 75
   \<and> calculate_distance ex_env (Finite 225) (Finite 0) (lat branch_B) (lon branch_B) = Finite 75
   \<and> find_nearest ex_env (Finite 225) (Finite 0) = (Some branch_A, Finite 75)"
proof -
  have bs: "BRANCHES ex_env = [branch_A, branch_B]" by (simp add: ex_env_def)
  have ne: "BRANCHES ex_env \<noteq> []" by (simp add: bs)
  have fin: "\<forall>q\<in>set (BRANCHES ex_env).
      \<exists>r. calculate_distance ex_env (Finite 225) (Finite 0) (lat q) (lon q) = Finite r"
    by (simp add: bs ex_dist_A ex_dist_B)
  from C6_nearest_branch [OF ne fin] obtain pre b post where
    split: "BRANCHES ex_env = pre @ b # post"
    and res: "find_nearest ex_env (Finite 225) (Finite 0) =
                (Some b, calculate_distance ex_env (Finite 225) (Finite 0) (lat b) (lon b))"
    and first: "\<forall>p\<in>set pre. fl_lt (calculate_distance ex_env (Finite 225) (Finite 0) (lat b) (lon b))
                   (calculate_distance ex_env (Finite 225) (Finite 0) (lat p) (lon p))"
    by blast
  from split bs have "pre = [] \<and> b = branch_A \<or> pre = [branch_A] \<and> b = branch_B"
    by (cases pre) (auto simp: Cons_eq_append_conv)
  with first have "b = branch_A"
    by (auto simp: ex_dist_A ex_dist_B)
  with res have "find_nearest ex_env (Finite 225) (Finite 0) = (Some branch_A, Finite 75)"
    by (simp add: ex_dist_A)
  with bs ex_dist_A ex_dist_B show ?thesis by blast
qed

subsection \<open>detect\_branch\<close>

text \<open>
  C10. When the list of branches splits at a branch \<open>b\<close> whose distance to the
  coordinate is less than or equal to \<open>PUNCH_RADIUS\<close>, with no branch before \<open>b\<close>
  within the radius, \<open>detect_branch\<close> returns \<open>(True, name, distance)\<close> of \<open>b\<close>;
  when no branch is within the radius it returns \<open>(False, None, None)\<close>.
\<close>

theorem C10_detect_branch:
  "(\<forall>pre b post. BRANCHES e = pre @ b # post
       \<and> (\<forall>p\<in>set pre. \<not> fl_le (calculate_distance e x y (lat p) (lon p)) (PUNCH_RADIUS e))
       \<and> fl_le (calculate_distance e x y (lat b) (lon b)) (PUNCH_RADIUS e) \<longrightarrow>
       detect_branch e x y = (True, Some (name b), Some (calculate_distance e x y (lat b) (lon b))))
   \<and> ((\<forall>q\<in>set (BRANCHES e). \<not> fl_le (calculate_distance e x y (lat q) (lon q)) (PUNCH_RADIUS e)) \<longrightarrow>
       detect_branch e x y = (False, None, None))"
  by (simp add: detect_branch_def detect_branch_loop_hit detect_branch_loop_miss)

text \<open>
  C10 at a point 100 from the first branch and 50 from the second, radius 200: the first
  is returned although the second is nearer; and at a point out of the range of both.
\<close>

theorem C10_detect_branch_witness:
  "BRANCHES ex_env = [] @ branch_A # [branch_B]
   \<and> fl_le (calculate_distance ex_env (Finite 250) (Finite 0) (lat branch_A) (lon branch_A))
        (PUNCH_RADIUS ex_env)
   \<and> detect_branch ex_env (Finite 250) (Finite 0) = (True, Some ''A'', Some (Finite 100))
   \<and> find_nearest ex_env (Finite 250) (Finite 0) = (Some branch_B, Finite 50)
   \<and> \<not> fl_le (calculate_distance ex_env (Finite 0) (Finite 500) (lat branch_A) (lon branch_A))
        (PUNCH_RADIUS ex_env)
   \<and> \<not> fl_le (calculate_distance ex_env (Finite 0) (Finite 500) (lat branch_B) (lon branch_B))
        (PUNCH_RADIUS ex_env)
   \<and> detect_branch ex_env (Finite 0) (Finite 500) = (False, None, None)"
proof -
  have bs: "BRANCHES ex_env = [] @ branch_A # [branch_B]" by (simp add: ex_env_def)
  have dA: "calculate_distance ex_env (Finite 250) (Finite 0) (lat branch_A) (lon branch_A) = Finite 100"
    by (simp add: ex_env_def branch_A_def)
  have inA: "fl_le (calculate_distance ex_env (Finite 250) (Finite 0) (lat branch_A) (lon branch_A))
        (PUNCH_RADIUS ex_env)"
    by (simp add: dA) (simp add: ex_env_def fl_le_def)
  have near: "find_nearest ex_env (Finite 250) (Finite 0) = (Some branch_B, Finite 50)"
    by (simp add: find_nearest_def ex_env_def branch_A_def branch_B_def Let_def)
  have outA: "\<not> fl_le (calculate_distance ex_env (Finite 0) (Finite 500) (lat branch_A) (lon branch_A))
        (PUNCH_RADIUS ex_env)"
    by (simp add: ex_env_def branch_A_def fl_le_def)
  have outB: "\<not> fl_le (calculate_distance ex_env (Finite 0) (Finite 500) (lat branch_B) (lon branch_B))
        (PUNCH_RADIUS ex_env)"
    by (simp add: ex_env_def branch_B_def fl_le_def)
  have out: "\<forall>q\<in>set (BRANCHES ex_env).
      \<not> fl_le (calculate_distance ex_env (Finite 0) (Finite 500) (lat q) (lon q)) (PUNCH_RADIUS ex_env)"
    using outA outB by (simp add: bs)
  have nm: "name branch_A = ''A''" by (simp add: branch_A_def)
  from C10_detect_branch [of ex_env "Finite 250" "Finite 0"] bs inA
  have hit: "detect_branch ex_env (Finite 250) (Finite 0) = (True, Some ''A'', Some (Finite 100))"
    unfolding dA [symmetric] nm [symmetric] by (metis empty_iff list.set(1))
  from C10_detect_branch [of ex_env "Finite 0" "Finite 500"] out
  have miss: "detect_branch ex_env (Finite 0) (Finite 500) = (False, None, None)"
    by blast
  from bs inA hit near outA outB miss show ?thesis by blast
qed

subsection \<open>The status of today\<close>

text \<open>
  C7. Let punch-in read the clock on one calendar day (\<open>now\<close> falls on \<open>today\<close>).
  When the user has no row of today, the status view reports that he is not punched in
  and has not punched out, with null times. After a punch-in that answered 201 the status
  view reports punched in and not punched out. After a punch-out on the same day that
  then answered 200 it reports not punched in and punched out, provided the round trip
  began with no row of today or, more generally, at most one row of the user and the day
  is open when the punch-out runs (the invariant of the data model). The status view
  returns the table as it got it.
\<close>

theorem C7_status_round_trip:
  assumes "date_of (now ck) = today ck"
  shows "(filter_today tbl u (today ck) = [] \<longrightarrow>
            TodayAttendanceView_get ck tbl u =
              (tbl, \<lparr>today_status_code = 200, today_status = ''success'',
                     today_data = \<lparr>is_punched_in = False, has_punched_out = False,
                                    view_punch_in_time = None, view_punch_out_time = None,
                                    view_branch = None, view_distance = None, raw = None\<rparr>\<rparr>))
       \<and> (\<forall>tbl1 r1. PunchInView_post e ck tbl req = (tbl1, Inr r1) \<and> status_code r1 = 201 \<longrightarrow>
            is_punched_in (today_data (snd (TodayAttendanceView_get ck tbl1 (req_user req))))
          \<and> \<not> has_punched_out (today_data (snd (TodayAttendanceView_get ck tbl1 (req_user req))))
          \<and> (\<forall>ck2 req2 tbl2 r2.
                today ck2 = today ck \<and> req_user req2 = req_user req
              \<and> (filter_today tbl (req_user req) (today ck) = []
                  \<or> length (filter_active tbl1 (req_user req) (today ck)) \<le> 1)
              \<and> PunchOutView_post e ck2 tbl1 req2 = (tbl2, Inr r2) \<and> status_code r2 = 200 \<longrightarrow>
                \<not> is_punched_in (today_data (snd (TodayAttendanceView_get ck2 tbl2 (req_user req))))
              \<and> has_punched_out (today_data (snd (TodayAttendanceView_get ck2 tbl2 (req_user req))))))
       \<and> fst (TodayAttendanceView_get ck tbl u) = tbl"
proof (intro conjI allI impI)
  assume "filter_today tbl u (today ck) = []"
  then show "TodayAttendanceView_get ck tbl u =
              (tbl, \<lparr>today_status_code = 200, today_status = ''success'',
                     today_data = \<lparr>is_punched_in = False, has_punched_out = False,
                                    view_punch_in_time = None, view_punch_out_time = None,
                                    view_branch = None, view_distance = None, raw = None\<rparr>\<rparr>)"
    by (simp add: TodayAttendanceView_get_def order_by_id_desc_def first_def)
next
  show "fst (TodayAttendanceView_get ck tbl u) = tbl"
  proof (cases "first (order_by_id_desc (filter_today tbl u (today ck)))")
    case None
    then show ?thesis by (simp add: TodayAttendanceView_get_def)
  next
    case (Some a)
    then show ?thesis by (rule today_of_latest(4))
  qed
next
  fix tbl1 r1
  assume "PunchInView_post e ck tbl req = (tbl1, Inr r1) \<and> status_code r1 = 201"
  then have run: "PunchInView_post e ck tbl req = (tbl1, Inr r1)" and ok: "status_code r1 = 201"
    by simp_all
  from punch_in_then_latest [OF assms run ok] obtain n where
    lat: "first (order_by_id_desc (filter_today tbl1 (req_user req) (today ck))) = Some n"
    and tin: "punch_in_time n = Some (now ck)" and tout: "punch_out_time n = None"
    and single: "filter_today tbl (req_user req) (today ck) = [] \<longrightarrow>
                  filter_active tbl1 (req_user req) (today ck) = [n]"
    by blast
  show "is_punched_in (today_data (snd (TodayAttendanceView_get ck tbl1 (req_user req))))"
    using today_of_latest(1) [OF lat] tin tout by simp
  show "\<not> has_punched_out (today_data (snd (TodayAttendanceView_get ck tbl1 (req_user req))))"
    using today_of_latest(2) [OF lat] tout by simp
  fix ck2 req2 tbl2 r2
  assume h: "today ck2 = today ck \<and> req_user req2 = req_user req
              \<and> (filter_today tbl (req_user req) (today ck) = []
                  \<or> length (filter_active tbl1 (req_user req) (today ck)) \<le> 1)
              \<and> PunchOutView_post e ck2 tbl1 req2 = (tbl2, Inr r2) \<and> status_code r2 = 200"
  then have d: "today ck2 = today ck" and u: "req_user req2 = req_user req"
    and run2: "PunchOutView_post e ck2 tbl1 req2 = (tbl2, Inr r2)" and ok2: "status_code r2 = 200"
    by simp_all
  from h single have "length (filter_active tbl1 (req_user req) (today ck)) \<le> 1"
    by auto
  then have one: "length (filter_active tbl1 (req_user req2) (today ck2)) \<le> 1"
    by (simp add: d u)
  from lat have lat2: "first (order_by_id_desc (filter_today tbl1 (req_user req2) (today ck2))) = Some n"
    by (simp add: d u)
  from punch_out_then_latest [OF lat2 tout one run2 ok2] obtain m where
    m: "first (order_by_id_desc (filter_today tbl2 (req_user req) (today ck2))) = Some m"
    and mout: "punch_out_time m = Some (now ck2)"
    by (auto simp: u)
  show "\<not> is_punched_in (today_data (snd (TodayAttendanceView_get ck2 tbl2 (req_user req))))"
    using today_of_latest(1) [OF m] mout by simp
  show "has_punched_out (today_data (snd (TodayAttendanceView_get ck2 tbl2 (req_user req))))"
    using today_of_latest(2) [OF m] mout by simp
qed

text \<open>
  C7 from the empty table: status, punch-in at time 100, status, punch-out at time 200,
  status.
\<close>

theorem C7_status_round_trip_witness:
  "date_of (now ex_clock) = today ex_clock
   \<and> filter_today [] 1 (today ex_clock) = []
   \<and> TodayAttendanceView_get ex_clock [] 1 =
        ([], \<lparr>today_status_code = 200, today_status = ''success'',
               today_data = \<lparr>is_punched_in = False, has_punched_out = False,
                              view_punch_in_time = None, view_punch_out_time = None,
                              view_branch = None, view_distance = None, raw = None\<rparr>\<rparr>)
   \<and> PunchInView_post ex_env ex_clock [] req_near =
        ([row_fresh], Inr (resp_in ''Punch in successful at A'' row_fresh))
   \<and> status_code (resp_in ''Punch in successful at A'' row_fresh) = 201
   \<and> is_punched_in (today_data (snd (TodayAttendanceView_get ex_clock [row_fresh] (req_user req_near))))
   \<and> \<not> has_punched_out (today_data (snd (TodayAttendanceView_get ex_clock [row_fresh] (req_user req_near))))
   \<and> today ex_clock_later = today ex_clock
   \<and> PunchOutView_post ex_env ex_clock_later [row_fresh] req_near =
        ([row_done], Inr (resp_out row_done))
   \<and> status_code (resp_out row_done) = 200
   \<and> \<not> is_punched_in (today_data (snd (TodayAttendanceView_get ex_clock_later [row_done] (req_user req_near))))
   \<and> has_punched_out (today_data (snd (TodayAttendanceView_get ex_clock_later [row_done] (req_user req_near))))
   \<and> fst (TodayAttendanceView_get ex_clock [row_done] 1) = [row_done]"
proof -
  have day: "date_of (now ex_clock) = today ex_clock"
    by (simp add: ex_clock_def date_of_def)
  have emp: "filter_today [] 1 (today ex_clock) = []"
    by (simp add: filter_today_def)
  have emp': "filter_today [] (req_user req_near) (today ex_clock) = []"
    by (simp add: filter_today_def)
  have c1: "status_code (resp_in ''Punch in successful at A'' row_fresh) = 201"
    by (simp add: resp_in_def)
  have c2: "status_code (resp_out row_done) = 200"
    by (simp add: resp_out_def)
  have same: "today ex_clock_later = today ex_clock"
    by (simp add: ex_clocks)
  note inst = C7_status_round_trip [OF day, where e = ex_env and req = req_near]
  from inst [of "[]" 1] emp
  have a: "TodayAttendanceView_get ex_clock [] 1 =
        ([], \<lparr>today_status_code = 200, today_status = ''success'',
               today_data = \<lparr>is_punched_in = False, has_punched_out = False,
                              view_punch_in_time = None, view_punch_out_time = None,
                              view_branch = None, view_distance = None, raw = None\<rparr>\<rparr>)"
    by blast
  from inst [of "[]" 1] ex_in_empty c1
  have b: "is_punched_in (today_data (snd (TodayAttendanceView_get ex_clock [row_fresh] (req_user req_near))))
     \<and> \<not> has_punched_out (today_data (snd (TodayAttendanceView_get ex_clock [row_fresh] (req_user req_near))))
     \<and> (\<forall>ck2 req2 tbl2 r2.
                today ck2 = today ex_clock \<and> req_user req2 = req_user req_near
              \<and> (filter_today [] (req_user req_near) (today ex_clock) = []
                  \<or> length (filter_active [row_fresh] (req_user req_near) (today ex_clock)) \<le> 1)
              \<and> PunchOutView_post ex_env ck2 [row_fresh] req2 = (tbl2, Inr r2) \<and> status_code r2 = 200 \<longrightarrow>
                \<not> is_punched_in (today_data (snd (TodayAttendanceView_get ck2 tbl2 (req_user req_near))))
              \<and> has_punched_out (today_data (snd (TodayAttendanceView_get ck2 tbl2 (req_user req_near)))))"
    by blast
  then have "today ex_clock_later = today ex_clock \<and> req_user req_near = req_user req_near
              \<and> (filter_today [] (req_user req_near) (today ex_clock) = []
                  \<or> length (filter_active [row_fresh] (req_user req_near) (today ex_clock)) \<le> 1)
              \<and> PunchOutView_post ex_env ex_clock_later [row_fresh] req_near = ([row_done], Inr (resp_out row_done))
              \<and> status_code (resp_out row_done) = 200 \<longrightarrow>
                \<not> is_punched_in (today_data (snd (TodayAttendanceView_get ex_clock_later [row_done] (req_user req_near))))
              \<and> has_punched_out (today_data (snd (TodayAttendanceView_get ex_clock_later [row_done] (req_user req_near))))"
    by blast
  with same emp' ex_out_fresh c2
  have c: "\<not> is_punched_in (today_data (snd (TodayAttendanceView_get ex_clock_later [row_done] (req_user req_near))))
              \<and> has_punched_out (today_data (snd (TodayAttendanceView_get ex_clock_later [row_done] (req_user req_near))))"
    by blast
  from C7_status_round_trip [OF day, of "[row_done]" 1]
  have d: "fst (TodayAttendanceView_get ex_clock [row_done] 1) = [row_done]"
    by blast
  from day emp a ex_in_empty c1 b same ex_out_fresh c2 c d show ?thesis by blast
qed

subsection \<open>Which row is today's record\<close>

text \<open>
  C9, as amended. Punch-in and the status view work on the row of the user and the day
  that has the highest key: the row a punch-in response carries has that key (or the new
  key, when there was no row), and the row the status view reports is that row, and is
  absent exactly when the user has no row of the day. Punch-out works on a row of the user
  and the day whose punch-out time is null: the row its response carries has the key of
  such a row.
\<close>

theorem C9_todays_record:
  "(\<forall>tbl1 r1 x. PunchInView_post e ck tbl req = (tbl1, Inr r1) \<and> data r1 = Some x \<longrightarrow>
       (filter_today tbl (req_user req) (today ck) = [] \<and> att_id x = next_id tbl)
     \<or> (\<exists>a\<in>set (filter_today tbl (req_user req) (today ck)). att_id x = att_id a
          \<and> (\<forall>r\<in>set (filter_today tbl (req_user req) (today ck)). att_id r \<le> att_id a)))
   \<and> (raw (today_data (snd (TodayAttendanceView_get ck tbl u))) = None
        \<longleftrightarrow> filter_today tbl u (today ck) = [])
   \<and> (\<forall>a. raw (today_data (snd (TodayAttendanceView_get ck tbl u))) = Some a \<longrightarrow>
         a \<in> set (filter_today tbl u (today ck))
       \<and> (\<forall>r\<in>set (filter_today tbl u (today ck)). att_id r \<le> att_id a))
   \<and> (\<forall>tbl2 r2 x. PunchOutView_post e ck tbl req = (tbl2, Inr r2) \<and> data r2 = Some x \<longrightarrow>
         (\<exists>a\<in>set (filter_active tbl (req_user req) (today ck)). att_id x = att_id a))"
proof -
  have pin: "(filter_today tbl (req_user req) (today ck) = [] \<and> att_id x = next_id tbl)
     \<or> (\<exists>a\<in>set (filter_today tbl (req_user req) (today ck)). att_id x = att_id a
          \<and> (\<forall>r\<in>set (filter_today tbl (req_user req) (today ck)). att_id r \<le> att_id a))"
    if "PunchInView_post e ck tbl req = (tbl1, Inr r1)" and "data r1 = Some x" for tbl1 r1 x
    using punch_in_data_cases [OF that] latest_SomeD by blast
  have raw_eq: "raw (today_data (snd (TodayAttendanceView_get ck tbl u)))
                  = first (order_by_id_desc (filter_today tbl u (today ck)))"
  proof (cases "first (order_by_id_desc (filter_today tbl u (today ck)))")
    case None
    then show ?thesis by (simp add: TodayAttendanceView_get_def)
  next
    case (Some a)
    then show ?thesis by (simp add: today_of_latest(3))
  qed
  have none: "raw (today_data (snd (TodayAttendanceView_get ck tbl u))) = None
        \<longleftrightarrow> filter_today tbl u (today ck) = []"
    unfolding raw_eq by (rule latest_None)
  have some: "a \<in> set (filter_today tbl u (today ck))
       \<and> (\<forall>r\<in>set (filter_today tbl u (today ck)). att_id r \<le> att_id a)"
    if "raw (today_data (snd (TodayAttendanceView_get ck tbl u))) = Some a" for a
    using that latest_SomeD unfolding raw_eq by blast
  have pout: "\<exists>a\<in>set (filter_active tbl (req_user req) (today ck)). att_id x = att_id a"
    if "PunchOutView_post e ck tbl req = (tbl2, Inr r2)" and "data r2 = Some x" for tbl2 r2 x
    using punch_out_data_cases [OF that] oldest_SomeD(1) by blast
  from pin none some pout show ?thesis by blast
qed

text \<open>
  C9 on a table with an open row under key 1 and a closed row under key 2, both of user 1
  on day 7.
\<close>

theorem C9_todays_record_witness:
  "PunchInView_post ex_env ex_clock [row_open 1, row_closed 2] req_near =
     ([row_open 1, row_reopened], Inr (resp_in ''Punch in updated successfully at A'' row_reopened))
   \<and> data (resp_in ''Punch in updated successfully at A'' row_reopened) = Some row_reopened
   \<and> filter_today [row_open 1, row_closed 2] (req_user req_near) (today ex_clock) \<noteq> []
   \<and> (\<exists>a\<in>set (filter_today [row_open 1, row_closed 2] (req_user req_near) (today ex_clock)).
         att_id row_reopened = att_id a
       \<and> (\<forall>r\<in>set (filter_today [row_open 1, row_closed 2] (req_user req_near) (today ex_clock)).
             att_id r \<le> att_id a))
   \<and> raw (today_data (snd (TodayAttendanceView_get ex_clock [row_open 1, row_closed 2] 1)))
        = Some (row_closed 2)
   \<and> row_closed 2 \<in> set (filter_today [row_open 1, row_closed 2] 1 (today ex_clock))
   \<and> att_id (row_open 1) \<le> att_id (row_closed 2)
   \<and> PunchOutView_post ex_env ex_clock [row_open 1, row_closed 2] req_near =
     ([row_left, row_closed 2], Inr (resp_out row_left))
   \<and> data (resp_out row_left) = Some row_left
   \<and> (\<exists>a\<in>set (filter_active [row_open 1, row_closed 2] (req_user req_near) (today ex_clock)).
         att_id row_left = att_id a)"
proof -
  note inst = C9_todays_record [of ex_env ex_clock "[row_open 1, row_closed 2]" req_near 1]
  have d1: "data (resp_in ''Punch in updated successfully at A'' row_reopened) = Some row_reopened"
    by (simp add: resp_in_def)
  have d2: "data (resp_out row_left) = Some row_left"
    by (simp add: resp_out_def)
  have ne: "filter_today [row_open 1, row_closed 2] (req_user req_near) (today ex_clock) \<noteq> []"
    unfolding ex_clocks ex_filter_two by simp
  have both: "set (filter_today [row_open 1, row_closed 2] 1 (today ex_clock))
                = {row_open 1, row_closed 2}"
    unfolding ex_clocks ex_filter_two by simp
  have rw: "raw (today_data (snd (TodayAttendanceView_get ex_clock [row_open 1, row_closed 2] 1)))
        = Some (row_closed 2)"
    by (rule today_of_latest(3)) (unfold ex_clocks, rule ex_latest_two)
  from inst ex_in_two d1 ne
  have a: "\<exists>a\<in>set (filter_today [row_open 1, row_closed 2] (req_user req_near) (today ex_clock)).
         att_id row_reopened = att_id a
       \<and> (\<forall>r\<in>set (filter_today [row_open 1, row_closed 2] (req_user req_near) (today ex_clock)).
             att_id r \<le> att_id a)"
    by blast
  from inst rw
  have b: "row_closed 2 \<in> set (filter_today [row_open 1, row_closed 2] 1 (today ex_clock))
       \<and> (\<forall>r\<in>set (filter_today [row_open 1, row_closed 2] 1 (today ex_clock)).
             att_id r \<le> att_id (row_closed 2))"
    by blast
  with both have b': "att_id (row_open 1) \<le> att_id (row_closed 2)" by blast
  from inst ex_out_two d2
  have c: "\<exists>a\<in>set (filter_active [row_open 1, row_closed 2] (req_user req_near) (today ex_clock)).
         att_id row_left = att_id a"
    by blast
  from ex_in_two d1 ne a rw b b' ex_out_two d2 c show ?thesis by blast
qed

text \<open>
  C9 as it was stated fails for punch-out: on that table the row of the user and the day
  with the highest key is the closed row under key 2, and punch-out works on the open row
  under key 1.
\<close>

theorem C9_counterexample:
  "first (order_by_id_desc (filter_today [row_open 1, row_closed 2] (req_user req_near) (today ex_clock)))
     = Some (row_closed 2)
   \<and> PunchOutView_post ex_env ex_clock [row_open 1, row_closed 2] req_near =
       ([row_left, row_closed 2], Inr (resp_out row_left))
   \<and> data (resp_out row_left) = Some row_left
   \<and> att_id row_left = 1 \<and> att_id (row_closed 2) = 2"
proof -
  have l: "first (order_by_id_desc (filter_today [row_open 1, row_closed 2] (req_user req_near) (today ex_clock)))
     = Some (row_closed 2)"
    unfolding ex_clocks by (rule ex_latest_two)
  have d: "data (resp_out row_left) = Some row_left"
    by (simp add: resp_out_def)
  from l ex_out_two d ex_ids(3) ex_ids(2) [of 2] show ?thesis by blast
qed

end
